theory Spec2Isabelle
  imports Complex_Main
begin

section \<open>Data model of \<^verbatim>\<open>xchainer/gradient_check.cc\<close>\<close>

text \<open>
  The element kinds of an array. The source file names \<^verbatim>\<open>Dtype::kFloat32\<close> and
  \<^verbatim>\<open>Dtype::kFloat64\<close>; every other member of the enumeration (its declaration is in
  \<^verbatim>\<open>xchainer/dtype.h\<close>) is \<open>kOtherDtype n\<close>.
\<close>

datatype Dtype = kFloat32 | kFloat64 | kOtherDtype nat

text \<open>
  Everything that leaves a function other than by its return value: the exceptions
  thrown in the file, a failed \<^verbatim>\<open>assert(false)\<close> (assertions enabled), \<^verbatim>\<open>std::out_of_range\<close>
  of \<^verbatim>\<open>vector::at\<close>, an access the C++ standard leaves undefined (a raw buffer or an
  unchecked \<^verbatim>\<open>operator[]\<close> read out of range), and an exception of an external
  collaborator, which passes through unchanged.
\<close>

datatype error =
    XchainerError string
  | InvalidArgument string
  | AssertionError string
  | AssertFalse
  | OutOfRange
  | UndefinedBehavior
  | External string

text \<open>
  An array: its shape, its dtype, its contiguous element buffer (one list cell per
  element, in flattening order) and the flag read by \<^verbatim>\<open>requires_grad()\<close>. The graph
  node of an array belongs to the state of the autograd system, see below.
\<close>

record 'v Array =
  shape :: "nat list"
  dtype :: Dtype
  data :: "'v list"
  requires_grad :: bool

text \<open>A \<^verbatim>\<open>Scalar\<close>: one value tagged with a dtype.\<close>

record 'v Scalar =
  sdtype :: Dtype
  sval :: 'v

text \<open>
  The arithmetic of the built-in element types and the operations of \<^verbatim>\<open>Array\<close> and
  \<^verbatim>\<open>Scalar\<close> that the file uses and does not define. They are parameters: nothing is
  assumed about them, so a theorem holds for IEEE arithmetic as for any other.
  \<^item> \<open>minus_T d\<close>, \<open>divide_T d\<close>, \<open>plus_T d\<close>, \<open>times_T d\<close>: the operators \<^verbatim>\<open>-\<close>, \<^verbatim>\<open>/\<close>,
    \<^verbatim>\<open>+\<close>, \<^verbatim>\<open>*\<close> at the C++ type \<^verbatim>\<open>T\<close> of dtype \<open>d\<close>;
  \<^item> \<open>literal_T d n\<close>: the integer literal \<open>n\<close> converted to \<^verbatim>\<open>T\<close>;
  \<^item> \<open>cast_T d d'\<close>: \<^verbatim>\<open>static_cast\<close> from the type of \<open>d\<close> to the type of \<open>d'\<close>;
  \<^item> \<open>sqrt_double\<close>: \<^verbatim>\<open>std::sqrt\<close> on \<^verbatim>\<open>double\<close>;
  \<^item> \<open>uninitialized\<close>: the content of a buffer cell that was never written;
  \<^item> \<open>scalar_plus\<close>: \<^verbatim>\<open>operator+\<close> of two \<^verbatim>\<open>Scalar\<close>s;
  \<^item> \<open>array_times\<close>: \<^verbatim>\<open>operator*\<close> of two \<^verbatim>\<open>Array\<close>s; \<open>Inl m\<close> is an exception it throws.
  What the operations of \<^verbatim>\<open>Array\<close> record in the computational graph is left out: an
  array of the model is its shape, dtype, buffer and flag.
\<close>

record 'v arith =
  minus_T :: "Dtype \<Rightarrow> 'v \<Rightarrow> 'v \<Rightarrow> 'v"
  divide_T :: "Dtype \<Rightarrow> 'v \<Rightarrow> 'v \<Rightarrow> 'v"
  plus_T :: "Dtype \<Rightarrow> 'v \<Rightarrow> 'v \<Rightarrow> 'v"
  times_T :: "Dtype \<Rightarrow> 'v \<Rightarrow> 'v \<Rightarrow> 'v"
  literal_T :: "Dtype \<Rightarrow> int \<Rightarrow> 'v"
  cast_T :: "Dtype \<Rightarrow> Dtype \<Rightarrow> 'v \<Rightarrow> 'v"
  sqrt_double :: "'v \<Rightarrow> 'v"
  uninitialized :: 'v
  scalar_plus :: "'v Scalar \<Rightarrow> 'v Scalar \<Rightarrow> 'v Scalar"
  array_times :: "'v Array \<Rightarrow> 'v Array \<Rightarrow> string + 'v Array"

subsection \<open>Errors as values\<close>

definition bind_err :: "error + 'a \<Rightarrow> ('a \<Rightarrow> error + 'b) \<Rightarrow> error + 'b" where
  "bind_err r f = (case r of Inl e \<Rightarrow> Inl e | Inr x \<Rightarrow> f x)"

definition external :: "string + 'a \<Rightarrow> error + 'a" where
  "external r = (case r of Inl m \<Rightarrow> Inl (External m) | Inr x \<Rightarrow> Inr x)"

text \<open>\<^verbatim>\<open>std::vector::at\<close>: range-checked.\<close>

definition vector_at :: "'a list \<Rightarrow> nat \<Rightarrow> error + 'a" where
  "vector_at xs i = (if i < length xs then Inr (xs ! i) else Inl OutOfRange)"

subsection \<open>Scalars and array construction\<close>

text \<open>
  Modelled from the spec: the class \<^verbatim>\<open>Scalar\<close> (\<^verbatim>\<open>xchainer/scalar.h\<close>) is absent. It is
  ``a single numeric value tagged with a dtype, convertible to/from built-in numeric
  types''. \<open>convert\<close> is the conversion between two built-in types, the identity
  between a type and itself; \<open>Scalar_to d s\<close> is \<^verbatim>\<open>static_cast<T>(s)\<close> for the type
  \<^verbatim>\<open>T\<close> of \<open>d\<close>; \<open>Scalar_from d v\<close> is the implicit constructor from a value of that
  type; \<open>Scalar_of d v d'\<close> is the constructor \<^verbatim>\<open>Scalar(v, dtype)\<close>.
\<close>

definition convert :: "'v arith \<Rightarrow> Dtype \<Rightarrow> Dtype \<Rightarrow> 'v \<Rightarrow> 'v" where
  "convert ops d d' v = (if d = d' then v else cast_T ops d d' v)"

definition Scalar_to :: "'v arith \<Rightarrow> Dtype \<Rightarrow> 'v Scalar \<Rightarrow> 'v" where
  "Scalar_to ops d s = convert ops (sdtype s) d (sval s)"

definition Scalar_from :: "Dtype \<Rightarrow> 'v \<Rightarrow> 'v Scalar" where
  "Scalar_from d v = \<lparr>sdtype = d, sval = v\<rparr>"

definition Scalar_of :: "'v arith \<Rightarrow> Dtype \<Rightarrow> 'v \<Rightarrow> Dtype \<Rightarrow> 'v Scalar" where
  "Scalar_of ops d v d' = \<lparr>sdtype = d', sval = convert ops d d' v\<rparr>"

text \<open>\<^verbatim>\<open>Scalar(n, dtype)\<close> for an integer literal \<open>n\<close>.\<close>

definition Scalar_literal :: "'v arith \<Rightarrow> int \<Rightarrow> Dtype \<Rightarrow> 'v Scalar" where
  "Scalar_literal ops n d = \<lparr>sdtype = d, sval = literal_T ops d n\<rparr>"

text \<open>
  Modelled from the spec: \<^verbatim>\<open>total_size()\<close> of the absent class \<^verbatim>\<open>Array\<close> is the total
  element count, the product of the dimensions of the shape.
\<close>

definition total_size :: "'v Array \<Rightarrow> nat" where
  "total_size a = prod_list (shape a)"

text \<open>
  Modelled from the spec: \<^verbatim>\<open>Array::EmptyLike\<close>, \<^verbatim>\<open>ZerosLike\<close> and \<^verbatim>\<open>FullLike\<close> are
  absent. They ``produce a new array with given shape/dtype, uninitialized /
  zero-filled / constant-filled respectively''. The new array has as many elements as
  the shape says and does not require a gradient.
\<close>

definition EmptyLike :: "'v arith \<Rightarrow> 'v Array \<Rightarrow> 'v Array" where
  "EmptyLike ops a =
     \<lparr>shape = shape a, dtype = dtype a,
      data = replicate (total_size a) (uninitialized ops), requires_grad = False\<rparr>"

definition ZerosLike :: "'v arith \<Rightarrow> 'v Array \<Rightarrow> 'v Array" where
  "ZerosLike ops a =
     \<lparr>shape = shape a, dtype = dtype a,
      data = replicate (total_size a) (literal_T ops (dtype a) 0), requires_grad = False\<rparr>"

definition FullLike :: "'v arith \<Rightarrow> 'v Array \<Rightarrow> 'v Scalar \<Rightarrow> 'v Array" where
  "FullLike ops a s =
     \<lparr>shape = shape a, dtype = dtype a,
      data = replicate (total_size a) (Scalar_to ops (dtype a) s), requires_grad = False\<rparr>"

section \<open>Elementwise arithmetic kernel\<close>

text \<open>
  The loop of \<^verbatim>\<open>Subtract\<close> and \<^verbatim>\<open>Divide\<close>:
  \<^verbatim>\<open>for (int64_t i = 0; i < total_size; ++i) odata[i] = ldata[i] op rdata[i];\<close>
\<close>

definition elementwise_loop ::
  "('v \<Rightarrow> 'v \<Rightarrow> 'v) \<Rightarrow> 'v list \<Rightarrow> 'v list \<Rightarrow> nat \<Rightarrow> 'v list \<Rightarrow> 'v list" where
  "elementwise_loop f ldata rdata n odata =
     fold (\<lambda>i od. od[i := f (ldata ! i) (rdata ! i)]) [0..<n] odata"

text \<open>
  \<^verbatim>\<open>VisitDtype\<close> selects the element type \<^verbatim>\<open>T\<close> from \<^verbatim>\<open>lhs.dtype()\<close>; the three buffers
  are then read and written as arrays of \<^verbatim>\<open>T\<close>, for \<^verbatim>\<open>lhs.total_size()\<close> elements.
  Nothing is checked: a buffer of another element type, or one with fewer elements,
  is an undefined access. (\<^verbatim>\<open>Synchronize\<close> changes no value.)
\<close>

definition binary_kernel ::
  "(Dtype \<Rightarrow> 'v \<Rightarrow> 'v \<Rightarrow> 'v) \<Rightarrow> 'v Array \<Rightarrow> 'v Array \<Rightarrow> 'v Array \<Rightarrow> error + 'v Array" where
  "binary_kernel f lhs rhs out =
     (let n = total_size lhs in
      if dtype rhs \<noteq> dtype lhs \<or> dtype out \<noteq> dtype lhs
         \<or> length (data lhs) < n \<or> length (data rhs) < n \<or> length (data out) < n
      then Inl UndefinedBehavior
      else Inr (out\<lparr>data := elementwise_loop (f (dtype lhs)) (data lhs) (data rhs) n (data out)\<rparr>))"

definition Subtract :: "'v arith \<Rightarrow> 'v Array \<Rightarrow> 'v Array \<Rightarrow> 'v Array \<Rightarrow> error + 'v Array" where
  "Subtract ops lhs rhs out = binary_kernel (minus_T ops) lhs rhs out"

definition Divide :: "'v arith \<Rightarrow> 'v Array \<Rightarrow> 'v Array \<Rightarrow> 'v Array \<Rightarrow> error + 'v Array" where
  "Divide ops lhs rhs out = binary_kernel (divide_T ops) lhs rhs out"

text \<open>\<^verbatim>\<open>operator-\<close> and \<^verbatim>\<open>operator/\<close>: the kernel on a fresh \<^verbatim>\<open>EmptyLike(lhs)\<close>.\<close>

definition array_minus :: "'v arith \<Rightarrow> 'v Array \<Rightarrow> 'v Array \<Rightarrow> error + 'v Array" where
  "array_minus ops lhs rhs = Subtract ops lhs rhs (EmptyLike ops lhs)"

definition array_divide :: "'v arith \<Rightarrow> 'v Array \<Rightarrow> 'v Array \<Rightarrow> error + 'v Array" where
  "array_divide ops lhs rhs = Divide ops lhs rhs (EmptyLike ops lhs)"

text \<open>
  \<^verbatim>\<open>SumImpl<T>\<close>: \<^verbatim>\<open>T s = 0; for (i < total_size) s += data[i];\<close>
\<close>

definition SumImpl :: "'v arith \<Rightarrow> Dtype \<Rightarrow> 'v Array \<Rightarrow> error + 'v" where
  "SumImpl ops d a =
     (let size = total_size a in
      if length (data a) < size then Inl UndefinedBehavior
      else Inr (fold (\<lambda>i s. plus_T ops d s (data a ! i)) [0..<size] (literal_T ops d 0)))"

definition Sum :: "'v arith \<Rightarrow> 'v Array \<Rightarrow> error + 'v Scalar" where
  "Sum ops x =
     (if dtype x = kFloat32 then bind_err (SumImpl ops kFloat32 x) (\<lambda>s. Inr (Scalar_from kFloat32 s))
      else if dtype x = kFloat64 then bind_err (SumImpl ops kFloat64 x) (\<lambda>s. Inr (Scalar_from kFloat64 s))
      else Inl AssertFalse)"

definition Norm :: "'v arith \<Rightarrow> 'v Array \<Rightarrow> error + 'v Scalar" where
  "Norm ops x =
     bind_err (external (array_times ops x x)) (\<lambda>xx.
     bind_err (Sum ops xx) (\<lambda>s.
     Inr (Scalar_of ops kFloat64 (sqrt_double ops (Scalar_to ops kFloat64 s)) (dtype x))))"

definition VectorDot :: "'v arith \<Rightarrow> 'v Array \<Rightarrow> 'v Array \<Rightarrow> error + 'v Scalar" where
  "VectorDot ops x y = bind_err (external (array_times ops x y)) (Sum ops)"

section \<open>Scalar accessor\<close>

text \<open>
  \<^verbatim>\<open>Set\<close> and \<^verbatim>\<open>Get\<close> test the dtype first and then index the raw buffer with the
  \<^verbatim>\<open>int64_t\<close> \<^verbatim>\<open>flat_index\<close>, unchecked.
\<close>

definition in_buffer :: "'v Array \<Rightarrow> int \<Rightarrow> bool" where
  "in_buffer a flat_index = (0 \<le> flat_index \<and> nat flat_index < length (data a))"

definition Set :: "'v arith \<Rightarrow> 'v Array \<Rightarrow> int \<Rightarrow> 'v Scalar \<Rightarrow> error + 'v Array" where
  "Set ops out flat_index v =
     (if dtype out = kFloat32 then
        (if in_buffer out flat_index
         then Inr (out\<lparr>data := (data out)[nat flat_index := Scalar_to ops kFloat32 v]\<rparr>)
         else Inl UndefinedBehavior)
      else if dtype out = kFloat64 then
        (if in_buffer out flat_index
         then Inr (out\<lparr>data := (data out)[nat flat_index := Scalar_to ops kFloat64 v]\<rparr>)
         else Inl UndefinedBehavior)
      else Inl AssertFalse)"

definition Get :: "'v Array \<Rightarrow> int \<Rightarrow> error + 'v Scalar" where
  "Get out flat_index =
     (if dtype out = kFloat32 then
        (if in_buffer out flat_index
         then Inr (Scalar_from kFloat32 (data out ! nat flat_index))
         else Inl UndefinedBehavior)
      else if dtype out = kFloat64 then
        (if in_buffer out flat_index
         then Inr (Scalar_from kFloat64 (data out ! nat flat_index))
         else Inl UndefinedBehavior)
      else Inl AssertFalse)"

section \<open>State, external calls and loops\<close>

text \<open>
  The function under test is a \<^verbatim>\<open>std::function<Arrays(const Arrays&)>\<close>: it may throw
  (\<open>Inl m\<close>) and it may have effects. The state \<open>'s\<close> is everything outside the
  arrays that a call can change: what the function itself keeps, and the computational
  graph of the autograd system. A computation of this file takes the state and returns
  its result, or the error that ended it, with the state at that moment.
\<close>

type_synonym ('v, 's) Func = "'v Array list \<Rightarrow> 's \<Rightarrow> (string + 'v Array list) \<times> 's"

definition pure_st :: "error + 'a \<Rightarrow> 's \<Rightarrow> (error + 'a) \<times> 's" where
  "pure_st r s = (r, s)"

definition bind_st ::
  "('s \<Rightarrow> (error + 'a) \<times> 's) \<Rightarrow> ('a \<Rightarrow> 's \<Rightarrow> (error + 'b) \<times> 's) \<Rightarrow> 's \<Rightarrow> (error + 'b) \<times> 's" where
  "bind_st m f s = (case m s of (Inl e, s') \<Rightarrow> (Inl e, s') | (Inr x, s') \<Rightarrow> f x s')"

definition call :: "('v, 's) Func \<Rightarrow> 'v Array list \<Rightarrow> 's \<Rightarrow> (error + 'v Array list) \<times> 's" where
  "call func xs s = (case func xs s of (r, s') \<Rightarrow> (external r, s'))"

text \<open>
  A \<^verbatim>\<open>for\<close> loop over the indices \<open>is\<close> whose body updates \<open>acc\<close>; an exception in the
  body ends the loop.
\<close>

fun for_err :: "(nat \<Rightarrow> 'b \<Rightarrow> error + 'b) \<Rightarrow> nat list \<Rightarrow> 'b \<Rightarrow> error + 'b" where
  "for_err body [] acc = Inr acc"
| "for_err body (i # is) acc =
     (case body i acc of Inl e \<Rightarrow> Inl e | Inr acc' \<Rightarrow> for_err body is acc')"

fun for_st ::
  "(nat \<Rightarrow> 'b \<Rightarrow> 's \<Rightarrow> (error + 'b) \<times> 's) \<Rightarrow> nat list \<Rightarrow> 'b \<Rightarrow> 's \<Rightarrow> (error + 'b) \<times> 's" where
  "for_st body [] acc s = (Inr acc, s)"
| "for_st body (i # is) acc s =
     (case body i acc s of (Inl e, s') \<Rightarrow> (Inl e, s') | (Inr acc', s') \<Rightarrow> for_st body is acc' s')"

section \<open>Perturbation evaluator and numerical gradient estimator\<close>

text \<open>
  The closure \<^verbatim>\<open>eval\<close> of \<^verbatim>\<open>CalculateNumericalGradient\<close>; \<open>dtype0\<close> is the captured
  \<^verbatim>\<open>dtype\<close>, the dtype of \<^verbatim>\<open>inputs[0]\<close>. \<^verbatim>\<open>Arrays xs = inputs\<close> copies every array; the
  copies are values of the model. (The source notes that the copies stay connected to
  \<^verbatim>\<open>inputs\<close> in the computational graph; the graph is not part of an array here.)
\<close>

definition eval ::
  "'v arith \<Rightarrow> ('v, 's) Func \<Rightarrow> 'v Array list \<Rightarrow> Dtype \<Rightarrow>
   nat \<Rightarrow> int \<Rightarrow> 'v Scalar \<Rightarrow> 'v \<Rightarrow> 's \<Rightarrow> (error + 'v Array list) \<times> 's" where
  "eval ops func inputs dtype0 i_in in_flat_index eps_scalar multiplier =
     (let xs = inputs in
      bind_st (pure_st
        (bind_err (vector_at xs i_in) (\<lambda>x.
         bind_err (Get x in_flat_index) (\<lambda>cur.
         bind_err (Set ops x in_flat_index
                     (scalar_plus ops cur
                        (Scalar_of ops kFloat32
                           (times_T ops kFloat32 (Scalar_to ops kFloat32 eps_scalar) multiplier)
                           dtype0))) (\<lambda>x'.
         Inr (xs[i_in := x']))))))
        (call func))"

text \<open>The body of the loop over the outputs \<open>j\<close> (lines 196 to 199).\<close>

definition output_step ::
  "'v arith \<Rightarrow> 'v Array list \<Rightarrow> 'v Array list \<Rightarrow> 'v Array \<Rightarrow> 'v Array list \<Rightarrow> int \<Rightarrow>
   nat \<Rightarrow> 'v Array \<Rightarrow> error + 'v Array" where
  "output_step ops ys0 ys1 denom grad_outputs in_flat_index j grad_i =
     bind_err (vector_at ys1 j) (\<lambda>y1.
     bind_err (vector_at ys0 j) (\<lambda>y0.
     bind_err (array_minus ops y1 y0) (\<lambda>dy.
     bind_err (array_minus ops y1 y0) (\<lambda>d.
     bind_err (array_divide ops d denom) (\<lambda>q.
     bind_err (vector_at grad_outputs j) (\<lambda>gy.
     bind_err (VectorDot ops q gy) (\<lambda>g.
     bind_err (Get grad_i in_flat_index) (\<lambda>cur.
     Set ops grad_i in_flat_index (scalar_plus ops cur g)))))))))"

text \<open>The body of the loop over the flat indices of input \<open>i\<close> (lines 189 to 200).\<close>

definition element_step ::
  "'v arith \<Rightarrow> ('v, 's) Func \<Rightarrow> 'v Array list \<Rightarrow> 'v Array list \<Rightarrow> 'v Array list \<Rightarrow> Dtype \<Rightarrow>
   nat \<Rightarrow> nat \<Rightarrow> 'v Array \<Rightarrow> 's \<Rightarrow> (error + 'v Array) \<times> 's" where
  "element_step ops func inputs grad_outputs eps dtype0 i in_flat_index grad_i =
     bind_st (pure_st (bind_err (vector_at eps i) (\<lambda>e. Get e (int in_flat_index)))) (\<lambda>eps_scalar.
     bind_st (eval ops func inputs dtype0 i (int in_flat_index) eps_scalar
                (literal_T ops kFloat32 (- 1))) (\<lambda>ys0.
     bind_st (eval ops func inputs dtype0 i (int in_flat_index) eps_scalar
                (literal_T ops kFloat32 1)) (\<lambda>ys1.
     bind_st (pure_st
        (bind_err (vector_at eps i) (\<lambda>e.
         bind_err (Get e (int in_flat_index)) (\<lambda>ek.
         external (array_times ops (FullLike ops e ek)
                     (FullLike ops e (Scalar_literal ops 2 dtype0))))))) (\<lambda>denom.
     pure_st (for_err (output_step ops ys0 ys1 denom grad_outputs (int in_flat_index))
                [0..<length grad_outputs] grad_i)))))"

text \<open>The body of the loop over the inputs \<open>i\<close> (lines 185 to 202).\<close>

definition input_step ::
  "'v arith \<Rightarrow> ('v, 's) Func \<Rightarrow> 'v Array list \<Rightarrow> 'v Array list \<Rightarrow> 'v Array list \<Rightarrow> Dtype \<Rightarrow>
   nat \<Rightarrow> 'v Array list \<Rightarrow> 's \<Rightarrow> (error + 'v Array list) \<times> 's" where
  "input_step ops func inputs grad_outputs eps dtype0 i grads =
     bind_st (pure_st (vector_at inputs i)) (\<lambda>x.
       (let grad_i = ZerosLike ops x; size = total_size grad_i in
        bind_st (for_st (element_step ops func inputs grad_outputs eps dtype0 i) [0..<size] grad_i)
          (\<lambda>grad_i'. pure_st (Inr (grads @ [grad_i'])))))"

text \<open>The check of \<^verbatim>\<open>eps\<close> against \<^verbatim>\<open>inputs\<close> (lines 162 to 170).\<close>

definition check_step :: "'v Array list \<Rightarrow> 'v Array list \<Rightarrow> nat \<Rightarrow> unit \<Rightarrow> error + unit" where
  "check_step inputs eps i u =
     bind_err (vector_at inputs i) (\<lambda>x.
     bind_err (vector_at eps i) (\<lambda>e.
       if shape x \<noteq> shape e then Inl (XchainerError ''Invalid eps shape'')
       else if dtype x \<noteq> dtype e then Inl (XchainerError ''Invalid eps dtype'')
       else Inr ()))"

text \<open>
  \<^verbatim>\<open>CalculateNumericalGradient\<close>. The numbers of arrays are taken to fit the \<^verbatim>\<open>int\<close>
  counters \<^verbatim>\<open>nin\<close> and \<^verbatim>\<open>nout\<close>. \<^verbatim>\<open>inputs[0]\<close> is an unchecked access: with no input
  it is undefined.
\<close>

definition CalculateNumericalGradient ::
  "'v arith \<Rightarrow> ('v, 's) Func \<Rightarrow> 'v Array list \<Rightarrow> 'v Array list \<Rightarrow> 'v Array list \<Rightarrow>
   's \<Rightarrow> (error + 'v Array list) \<times> 's" where
  "CalculateNumericalGradient ops func inputs grad_outputs eps =
     (let nin = length inputs in
      if length eps \<noteq> nin then pure_st (Inl (XchainerError ''Invalid number of eps arrays''))
      else
        bind_st (pure_st (for_err (check_step inputs eps) [0..<nin] ())) (\<lambda>u.
          (case inputs of
             [] \<Rightarrow> pure_st (Inl UndefinedBehavior)
           | x0 # rest \<Rightarrow>
               for_st (input_step ops func inputs grad_outputs eps (dtype x0)) [0..<nin] [])))"

section \<open>Backward-check orchestrator\<close>

text \<open>
  The computational graph and the differentiation engine are external. Their
  operations act on the state; the index says which array of its list the operation is
  applied to.
  \<^item> \<open>make_op_node name\<close>: \<^verbatim>\<open>std::make_shared<OpNode>(name)\<close>;
  \<^item> \<open>connect_identity i x out\<close>: lines 75 to 77 of \<^verbatim>\<open>Identity\<close> for input \<open>x\<close> and output
    \<open>out\<close> at index \<open>i\<close> (\<^verbatim>\<open>RenewNode\<close>, \<^verbatim>\<open>add_node\<close>, \<^verbatim>\<open>set_next_node\<close>);
  \<^item> \<open>set_grad i out gy\<close>: \<^verbatim>\<open>outputs[i].mutable_node()->set_grad(grad_outputs[i])\<close>;
  \<^item> \<open>Backward out\<close>: \<^verbatim>\<open>Backward(out)\<close>; \<open>Some m\<close> is an exception it throws;
  \<^item> \<open>grad i x\<close>: \<^verbatim>\<open>inputs[i].grad()\<close>, an optional array;
  \<^item> \<open>AllClose a b atol rtol\<close>: the closeness predicate; \<open>Inl m\<close> is an exception it
    throws.
\<close>

record ('v, 's) autograd =
  make_op_node :: "string \<Rightarrow> 's \<Rightarrow> 's"
  connect_identity :: "nat \<Rightarrow> 'v Array \<Rightarrow> 'v Array \<Rightarrow> 's \<Rightarrow> 's"
  set_grad :: "nat \<Rightarrow> 'v Array \<Rightarrow> 'v Array \<Rightarrow> 's \<Rightarrow> 's"
  Backward :: "'v Array \<Rightarrow> 's \<Rightarrow> string option \<times> 's"
  grad :: "nat \<Rightarrow> 'v Array \<Rightarrow> 's \<Rightarrow> 'v Array option"
  AllClose :: "'v Array \<Rightarrow> 'v Array \<Rightarrow> 'v \<Rightarrow> 'v \<Rightarrow> string + bool"

text \<open>\<^verbatim>\<open>std::vector::operator[]\<close>: unchecked.\<close>

definition vector_index :: "'a list \<Rightarrow> nat \<Rightarrow> error + 'a" where
  "vector_index xs i = (if i < length xs then Inr (xs ! i) else Inl UndefinedBehavior)"

text \<open>
  \<^verbatim>\<open>internal::MemoryCopy(dst, src, bytes)\<close> (declared in \<^verbatim>\<open>xchainer/memory.h\<close>) copies
  bytes from one buffer to the other; here on buffers of one element type, for \<open>n\<close>
  elements. A buffer shorter than that is an undefined access.
\<close>

definition MemoryCopy :: "'v list \<Rightarrow> 'v list \<Rightarrow> nat \<Rightarrow> error + 'v list" where
  "MemoryCopy dst src n =
     (if n \<le> length src \<and> n \<le> length dst then Inr (take n src @ drop n dst)
      else Inl UndefinedBehavior)"

text \<open>The body of the loop of \<^verbatim>\<open>Identity(inputs, outputs)\<close> (lines 72 to 79).\<close>

definition Identity_step ::
  "('v, 's) autograd \<Rightarrow> 'v Array list \<Rightarrow> nat \<Rightarrow> 'v Array list \<Rightarrow> 's \<Rightarrow> (error + 'v Array list) \<times> 's" where
  "Identity_step au inputs i outputs =
     bind_st (pure_st (vector_index inputs i)) (\<lambda>x.
     bind_st (pure_st (vector_index outputs i)) (\<lambda>out.
     bind_st (\<lambda>s. (Inr (), if requires_grad x then connect_identity au i x out s else s)) (\<lambda>u.
     pure_st (bind_err (MemoryCopy (data out) (data x) (total_size x)) (\<lambda>d.
              Inr (outputs[i := out\<lparr>data := d\<rparr>]))))))"

definition Identity_into ::
  "('v, 's) autograd \<Rightarrow> 'v Array list \<Rightarrow> 'v Array list \<Rightarrow> 's \<Rightarrow> (error + 'v Array list) \<times> 's" where
  "Identity_into au inputs outputs s =
     (let any_requires_grad = list_ex requires_grad inputs;
          s' = (if any_requires_grad then make_op_node au ''identity'' s else s)
      in for_st (Identity_step au inputs) [0..<length inputs] outputs s')"

text \<open>\<^verbatim>\<open>Identity(inputs)\<close>: the loop on one fresh \<^verbatim>\<open>EmptyLike\<close> array per input.\<close>

definition Identity ::
  "('v, 's) autograd \<Rightarrow> 'v arith \<Rightarrow> 'v Array list \<Rightarrow> 's \<Rightarrow> (error + 'v Array list) \<times> 's" where
  "Identity au ops inputs = Identity_into au inputs (map (EmptyLike ops) inputs)"

text \<open>Line 221, the body of the loop that sets the output gradients.\<close>

definition seed_step ::
  "('v, 's) autograd \<Rightarrow> 'v Array list \<Rightarrow> 'v Array list \<Rightarrow> nat \<Rightarrow> unit \<Rightarrow> 's \<Rightarrow> (error + unit) \<times> 's" where
  "seed_step au outputs grad_outputs i u =
     bind_st (pure_st (vector_index outputs i)) (\<lambda>out.
     bind_st (pure_st (vector_index grad_outputs i)) (\<lambda>gy.
     (\<lambda>s. (Inr (), set_grad au i out gy s))))"

text \<open>Line 224, \<^verbatim>\<open>Backward(outputs[0])\<close>.\<close>

definition run_Backward :: "('v, 's) autograd \<Rightarrow> 'v Array list \<Rightarrow> 's \<Rightarrow> (error + unit) \<times> 's" where
  "run_Backward au outputs =
     bind_st (pure_st (vector_index outputs 0)) (\<lambda>out s.
       (case Backward au out s of
          (None, s') \<Rightarrow> (Inr (), s')
        | (Some m, s') \<Rightarrow> (Inl (External m), s')))"

text \<open>
  Line 227, one step of the \<^verbatim>\<open>std::transform\<close>: \<^verbatim>\<open>*input.grad()\<close> is appended; on an
  empty optional the dereference is undefined.
\<close>

definition input_grad_step ::
  "('v, 's) autograd \<Rightarrow> 'v Array list \<Rightarrow> 's \<Rightarrow> nat \<Rightarrow> 'v Array list \<Rightarrow> error + 'v Array list" where
  "input_grad_step au inputs s i backward_grads =
     bind_err (vector_index inputs i) (\<lambda>x.
       (case grad au i x s of
          None \<Rightarrow> Inl UndefinedBehavior
        | Some g \<Rightarrow> Inr (backward_grads @ [g])))"

text \<open>Lines 231 to 233, the body of the comparison loop.\<close>

definition compare_step ::
  "('v, 's) autograd \<Rightarrow> 'v Array list \<Rightarrow> 'v Array list \<Rightarrow> 'v \<Rightarrow> 'v \<Rightarrow> nat \<Rightarrow> unit \<Rightarrow> error + unit" where
  "compare_step au backward_grads numerical_grads atol rtol i u =
     bind_err (vector_index backward_grads i) (\<lambda>b.
     bind_err (vector_index numerical_grads i) (\<lambda>n.
     bind_err (external (AllClose au b n atol rtol)) (\<lambda>close.
       if \<not> close then Inl (AssertionError ''too large errors'')
       else Inr ())))"

text \<open>
  \<^verbatim>\<open>CheckBackwardComputation\<close> in two parts. \<open>gradients\<close> is lines 212 to 228: it
  evaluates \<^verbatim>\<open>func\<close>, passes the outputs through \<^verbatim>\<open>Identity\<close>, compares the numbers of
  outputs and output gradients, sets the output gradients, runs backprop, reads the
  gradients of the inputs and estimates the numerical gradients. The result is the pair
  \<^verbatim>\<open>(backward_grads, numerical_grads)\<close>.
\<close>

definition gradients ::
  "('v, 's) autograd \<Rightarrow> 'v arith \<Rightarrow> ('v, 's) Func \<Rightarrow> 'v Array list \<Rightarrow> 'v Array list \<Rightarrow> 'v Array list \<Rightarrow>
   's \<Rightarrow> (error + 'v Array list \<times> 'v Array list) \<times> 's" where
  "gradients au ops func inputs grad_outputs eps =
     bind_st (call func inputs) (\<lambda>ys.
     bind_st (Identity au ops ys) (\<lambda>outputs.
       if length outputs \<noteq> length grad_outputs
       then pure_st (Inl (InvalidArgument
              ''Number of given output gradients does not match the actual number of outputs''))
       else
         bind_st (for_st (seed_step au outputs grad_outputs) [0..<length outputs] ()) (\<lambda>u.
         bind_st (run_Backward au outputs) (\<lambda>u.
         bind_st (\<lambda>s. (for_err (input_grad_step au inputs s) [0..<length inputs] [], s)) (\<lambda>backward_grads.
         bind_st (CalculateNumericalGradient ops func inputs grad_outputs eps) (\<lambda>numerical_grads.
         pure_st (Inr (backward_grads, numerical_grads))))))))"

text \<open>The whole function: \<open>gradients\<close>, then the comparison loop of lines 230 to 234.\<close>

definition CheckBackwardComputation ::
  "('v, 's) autograd \<Rightarrow> 'v arith \<Rightarrow> ('v, 's) Func \<Rightarrow> 'v Array list \<Rightarrow> 'v Array list \<Rightarrow> 'v Array list \<Rightarrow>
   'v \<Rightarrow> 'v \<Rightarrow> 's \<Rightarrow> (error + unit) \<times> 's" where
  "CheckBackwardComputation au ops func inputs grad_outputs eps atol rtol =
     bind_st (gradients au ops func inputs grad_outputs eps) (\<lambda>(backward_grads, numerical_grads).
     pure_st (for_err (compare_step au backward_grads numerical_grads atol rtol)
                [0..<length backward_grads] ()))"

section \<open>What the estimator is to compute\<close>

text \<open>
  The definitions of this section state the results; they are compared with the
  functions above in the theorems.

  \<open>perturbed ops inputs i k delta\<close> is \<open>inputs\<close> with the \<^verbatim>\<open>Scalar\<close> \<open>delta\<close> added to
  element \<open>k\<close> of input \<open>i\<close>: the element is read as a \<^verbatim>\<open>Scalar\<close>, \<open>delta\<close> is added with
  \<^verbatim>\<open>operator+\<close> of \<^verbatim>\<open>Scalar\<close>, and the sum is stored in the element's type.
  \<open>nudge ops dtype0 e sign\<close> is the amount by which an element is nudged for the
  perturbation magnitude \<open>e\<close> and the sign \<open>sign\<close>: \<open>e\<close> converted to \<^verbatim>\<open>float\<close>, multiplied
  in \<^verbatim>\<open>float\<close> by the sign, and converted to \<open>dtype0\<close>, the dtype of the first input.
\<close>

definition perturbed :: "'v arith \<Rightarrow> 'v Array list \<Rightarrow> nat \<Rightarrow> nat \<Rightarrow> 'v Scalar \<Rightarrow> 'v Array list" where
  "perturbed ops inputs i k delta =
     inputs[i := (inputs ! i)\<lparr>data := (data (inputs ! i))[k :=
        Scalar_to ops (dtype (inputs ! i))
          (scalar_plus ops (Scalar_from (dtype (inputs ! i)) (data (inputs ! i) ! k)) delta)]\<rparr>]"

definition nudge :: "'v arith \<Rightarrow> Dtype \<Rightarrow> 'v Scalar \<Rightarrow> int \<Rightarrow> 'v Scalar" where
  "nudge ops dtype0 e sign =
     Scalar_of ops kFloat32
       (times_T ops kFloat32 (Scalar_to ops kFloat32 e) (literal_T ops kFloat32 sign)) dtype0"

text \<open>
  \<open>accumulate ops d acc g\<close>: the accumulator element \<open>acc\<close> of dtype \<open>d\<close> after the
  \<^verbatim>\<open>Scalar\<close> \<open>g\<close> was added to it and the sum stored back.
\<close>

definition accumulate :: "'v arith \<Rightarrow> Dtype \<Rightarrow> 'v \<Rightarrow> 'v Scalar \<Rightarrow> 'v" where
  "accumulate ops d acc g = Scalar_to ops d (scalar_plus ops (Scalar_from d acc) g)"










text \<open>
  The expressions of lines 194 and 197 as the program evaluates them, with the kernels
  of the file; the lemmas on the loops are stated with them. \<open>denominator\<close> is the
  array \<^verbatim>\<open>denom\<close> for element \<open>k\<close> of input \<open>i\<close>: an array like \<open>eps ! i\<close> filled with
  that element of \<open>eps ! i\<close>, times an array like \<open>eps ! i\<close> filled with 2.
  \<open>contribution\<close> is the \<^verbatim>\<open>Scalar\<close> \<open>g\<close> of line 197 for output \<open>j\<close>, on the outputs of
  \<open>f\<close> at the inputs nudged upwards and downwards. An error of a kernel is an error of
  the expression.
\<close>

definition denominator ::
  "'v arith \<Rightarrow> 'v Array list \<Rightarrow> 'v Array list \<Rightarrow> nat \<Rightarrow> nat \<Rightarrow> error + 'v Array" where
  "denominator ops inputs eps i k =
     (let e = Scalar_from (dtype (eps ! i)) (data (eps ! i) ! k) in
      external (array_times ops (FullLike ops (eps ! i) e)
                  (FullLike ops (eps ! i) (Scalar_literal ops 2 (dtype (inputs ! 0))))))"

definition contribution ::
  "'v arith \<Rightarrow> ('v Array list \<Rightarrow> 'v Array list) \<Rightarrow> 'v Array list \<Rightarrow> 'v Array list \<Rightarrow> 'v Array list \<Rightarrow>
   nat \<Rightarrow> nat \<Rightarrow> nat \<Rightarrow> error + 'v Scalar" where
  "contribution ops f inputs grad_outputs eps i k j =
     (let dtype0 = dtype (inputs ! 0);
          e = Scalar_from (dtype (eps ! i)) (data (eps ! i) ! k);
          ys0 = f (perturbed ops inputs i k (nudge ops dtype0 e (- 1)));
          ys1 = f (perturbed ops inputs i k (nudge ops dtype0 e 1))
      in bind_err (denominator ops inputs eps i k) (\<lambda>denom.
         bind_err (vector_at ys1 j) (\<lambda>y1.
         bind_err (vector_at ys0 j) (\<lambda>y0.
         bind_err (array_minus ops y1 y0) (\<lambda>d.
         bind_err (array_divide ops d denom) (\<lambda>q.
         VectorDot ops q (grad_outputs ! j)))))))"

text \<open>A result that is an \<^verbatim>\<open>AssertionError\<close>.\<close>

definition raises_assertion :: "error + 'a \<Rightarrow> bool" where
  "raises_assertion r \<longleftrightarrow> (\<exists>m. r = Inl (AssertionError m))"

section \<open>What the backward check compares\<close>

text \<open>
  \<open>seeded_state au outputs grad_outputs s\<close> is the state after the loop of line 221
  has set \<open>grad_outputs[i]\<close> as the gradient of \<open>outputs[i]\<close>, for every output in
  order.

  \<open>backward_check_run\<close> says that lines 212 to 228 run through without an exception,
  and names the values on the way: \<^verbatim>\<open>func(inputs)\<close> returns \<open>ys\<close>, in the state \<open>s1\<close>;
  \<^verbatim>\<open>Identity\<close> returns \<open>outputs\<close> for them, in the state \<open>s2\<close>; there are as many outputs
  as output gradients, and at least one; \<^verbatim>\<open>Backward(outputs[0])\<close>, started in the state
  in which the output gradients are set, returns in the state \<open>s4\<close>; \<open>bg\<close> holds, for
  every input \<open>i\<close>, the gradient \<^verbatim>\<open>*inputs[i].grad()\<close> of that state; and
  \<^verbatim>\<open>CalculateNumericalGradient\<close>, called in that state, returns \<open>ng\<close>, in the state \<open>s5\<close>.
\<close>

definition seeded_state ::
  "('v, 's) autograd \<Rightarrow> 'v Array list \<Rightarrow> 'v Array list \<Rightarrow> 's \<Rightarrow> 's" where
  "seeded_state au outputs grad_outputs s =
     fold (\<lambda>i. set_grad au i (outputs ! i) (grad_outputs ! i)) [0..<length outputs] s"

definition backward_check_run ::
  "('v, 's) autograd \<Rightarrow> 'v arith \<Rightarrow> ('v, 's) Func \<Rightarrow> 'v Array list \<Rightarrow> 'v Array list \<Rightarrow> 'v Array list \<Rightarrow>
   's \<Rightarrow> 'v Array list \<Rightarrow> 's \<Rightarrow> 'v Array list \<Rightarrow> 's \<Rightarrow> 's \<Rightarrow> 'v Array list \<Rightarrow> 'v Array list \<Rightarrow> 's \<Rightarrow> bool" where
  "backward_check_run au ops func inputs grad_outputs eps s ys s1 outputs s2 s4 bg ng s5 \<longleftrightarrow>
     func inputs s = (Inr ys, s1) \<and>
     Identity au ops ys s1 = (Inr outputs, s2) \<and>
     length outputs = length grad_outputs \<and>
     outputs \<noteq> [] \<and>
     Backward au (outputs ! 0) (seeded_state au outputs grad_outputs s2) = (None, s4) \<and>
     length bg = length inputs \<and>
     (\<forall>i<length inputs. grad au i (inputs ! i) s4 = Some (bg ! i)) \<and>
     CalculateNumericalGradient ops func inputs grad_outputs eps s4 = (Inr ng, s5)"

section \<open>Concrete instances\<close>

text \<open>
  The arithmetic of the real numbers, in which no operation rounds and every cast is
  the identity. On the values used below (small integers and halves, quarters) IEEE
  arithmetic in either width computes the same results. The product of two arrays is
  elementwise and asks for equal shapes and dtypes.
\<close>

definition exact_arith :: "real arith" where
  "exact_arith =
     \<lparr>minus_T = (\<lambda>d a b. a - b),
      divide_T = (\<lambda>d a b. a / b),
      plus_T = (\<lambda>d a b. a + b),
      times_T = (\<lambda>d a b. a * b),
      literal_T = (\<lambda>d n. of_int n),
      cast_T = (\<lambda>d d' v. v),
      sqrt_double = sqrt,
      uninitialized = 0,
      scalar_plus = (\<lambda>a b. \<lparr>sdtype = sdtype a, sval = sval a + sval b\<rparr>),
      array_times = (\<lambda>a b. if shape a = shape b \<and> dtype a = dtype b
                             then Inr (a\<lparr>data := map2 (*) (data a) (data b)\<rparr>)
                             else Inl ''shape or dtype mismatch'')\<rparr>"

text \<open>
  The same arithmetic with a cast from \<^verbatim>\<open>double\<close> to \<^verbatim>\<open>float\<close> that rounds to the nearest
  multiple of \<open>2\<^sup>-\<^sup>2\<^sup>3\<close>, the spacing of \<^verbatim>\<open>float\<close> between 1 and 2: on a value between 1 and
  2 that is not half-way between two such multiples it is the IEEE conversion.
\<close>

definition single_arith :: "real arith" where
  "single_arith = exact_arith\<lparr>cast_T := (\<lambda>d d' v.
      if d = kFloat64 \<and> d' = kFloat32 then of_int (round (v * 2 ^ 23)) / 2 ^ 23 else v)\<rparr>"

text \<open>A one-dimensional array that requires a gradient.\<close>

definition vec :: "Dtype \<Rightarrow> real list \<Rightarrow> real Array" where
  "vec d xs = \<lparr>shape = [length xs], dtype = d, data = xs, requires_grad = True\<rparr>"

text \<open>
  A state that counts the calls of the function under test and keeps the gradients
  set on the outputs; the identity function, counting its calls; and an autograd
  system for it: the gradient of input \<open>i\<close> is the gradient that was set on output \<open>i\<close>.
\<close>

record test_state =
  calls :: nat
  seeded :: "real Array list"

definition counting_identity :: "(real, test_state) Func" where
  "counting_identity xs s = (Inr xs, s\<lparr>calls := Suc (calls s)\<rparr>)"

definition identity_autograd :: "(real, test_state) autograd" where
  "identity_autograd =
     \<lparr>make_op_node = (\<lambda>name s. s),
      connect_identity = (\<lambda>i x out s. s),
      set_grad = (\<lambda>i out gy s. s\<lparr>seeded := seeded s @ [gy]\<rparr>),
      Backward = (\<lambda>out s. (None, s)),
      grad = (\<lambda>i x s. if i < length (seeded s) then Some (seeded s ! i) else None),
      AllClose = (\<lambda>a b atol rtol.
                    if shape a \<noteq> shape b then Inl ''shape mismatch''
                    else Inr (list_all2 (\<lambda>x y. \<bar>x - y\<bar> \<le> atol + rtol * \<bar>y\<bar>)
                                (data a) (data b)))\<rparr>"

text \<open>
  Two more functions that count their calls. \<open>counting_scale cs\<close> returns one flat
  array per input, input \<open>i\<close> multiplied by \<open>cs ! i\<close>; with the autograd system above,
  whose gradients are those of the identity function, backprop is right for this
  function where \<open>cs ! i = 1\<close> and wrong elsewhere. \<open>counting_fanout cs\<close> returns, for
  every factor \<open>c\<close> of \<open>cs\<close>, the first input multiplied by \<open>c\<close>; \<open>fanout cs\<close> is the
  function it computes.
\<close>

definition counting_scale :: "real list \<Rightarrow> (real, test_state) Func" where
  "counting_scale cs xs s =
     (Inr (map2 (\<lambda>c x. \<lparr>shape = [length (data x)], dtype = dtype x,
                        data = map (\<lambda>v. c * v) (data x), requires_grad = requires_grad x\<rparr>) cs xs),
      s\<lparr>calls := Suc (calls s)\<rparr>)"



section \<open>Basic facts\<close>

lemma bind_err_simps [simp]:
  "bind_err (Inr x) f = f x" "bind_err (Inl e) f = Inl e"
  by (simp_all add: bind_err_def)

lemma bind_st_pure [simp]:
  "bind_st (pure_st (Inr x)) f s = f x s" "bind_st (pure_st (Inl e)) f s = (Inl e, s)"
  by (simp_all add: bind_st_def pure_st_def)

lemma bind_st_Inr: "m s = (Inr x, s') \<Longrightarrow> bind_st m f s = f x s'"
  by (simp add: bind_st_def)




lemma for_err_append:
  "for_err body (xs @ ys) acc = bind_err (for_err body xs acc) (for_err body ys)"
  by (induction xs arbitrary: acc) (simp_all split: sum.splits)

lemma for_err_single: "for_err body [i] = body i"
  by (rule ext) (simp split: sum.splits)

lemma bind_st_Inr_iff:
  "bind_st m f s = (Inr y, s') \<longleftrightarrow> (\<exists>x t. m s = (Inr x, t) \<and> f x t = (Inr y, s'))"
  by (cases "m s") (auto simp: bind_st_def split: sum.splits)

lemma call_iff: "call func xs s = (Inr ys, s1) \<longleftrightarrow> func xs s = (Inr ys, s1)"
  by (cases "func xs s") (auto simp: call_def external_def split: sum.splits)

lemmas eval_defs = exact_arith_def vec_def total_size_def contribution_def denominator_def
  perturbed_def nudge_def FullLike_def EmptyLike_def ZerosLike_def array_minus_def
  array_divide_def Subtract_def Divide_def binary_kernel_def elementwise_loop_def
  VectorDot_def Sum_def SumImpl_def Scalar_from_def Scalar_to_def Scalar_of_def
  Scalar_literal_def convert_def external_def vector_at_def Let_def accumulate_def


lemmas run_defs = backward_check_run_def seeded_state_def
  CalculateNumericalGradient_def input_step_def element_step_def
  output_step_def eval_def check_step_def Identity_def Identity_into_def Identity_step_def
  MemoryCopy_def vector_index_def call_def counting_scale_def identity_autograd_def
  bind_st_def pure_st_def Get_def Set_def in_buffer_def

section \<open>Elementwise kernel: \<open>Subtract\<close> and \<open>Divide\<close>\<close>

lemma elementwise_loop_length:
  "length (elementwise_loop f l r n od) = length od"
  by (induction n) (simp_all add: elementwise_loop_def)

lemma elementwise_loop_nth:
  "n \<le> length od \<Longrightarrow>
   elementwise_loop f l r n od ! i = (if i < n then f (l ! i) (r ! i) else od ! i)"
proof (induction n)
  case 0
  then show ?case by (simp add: elementwise_loop_def)
next
  case (Suc n)
  have len: "length (elementwise_loop f l r n od) = length od"
    by (rule elementwise_loop_length)
  have step: "elementwise_loop f l r (Suc n) od =
      (elementwise_loop f l r n od)[n := f (l ! n) (r ! n)]"
    by (simp add: elementwise_loop_def)
  from Suc show ?case
    by (auto simp: step len nth_list_update)
qed

lemma binary_kernel_ok:
  assumes "dtype rhs = dtype lhs" "dtype out = dtype lhs"
    and "total_size lhs \<le> length (data lhs)" "total_size lhs \<le> length (data rhs)"
    and "total_size lhs \<le> length (data out)"
  shows "binary_kernel f lhs rhs out =
           Inr (out\<lparr>data := elementwise_loop (f (dtype lhs)) (data lhs) (data rhs)
                               (total_size lhs) (data out)\<rparr>)"
  using assms by (simp add: binary_kernel_def Let_def)



text \<open>
  Claim C7. For operands \<open>lhs\<close> and \<open>rhs\<close> of one shape and dtype, whose buffers hold as
  many elements as the shape says, \<^verbatim>\<open>lhs - rhs\<close> and \<^verbatim>\<open>lhs / rhs\<close> return an array of the
  shape and dtype of the operands whose element at every flat index \<open>i\<close> is
  \<open>lhs[i] - rhs[i]\<close>, respectively \<open>lhs[i] / rhs[i]\<close>, in the arithmetic of the dtype.
\<close>

theorem Subtract_Divide_elementwise:
  assumes "shape rhs = shape lhs" and "dtype rhs = dtype lhs"
    and "length (data lhs) = total_size lhs" and "length (data rhs) = total_size rhs"
  shows "(\<exists>out. array_minus ops lhs rhs = Inr out \<and> shape out = shape lhs \<and> dtype out = dtype lhs
            \<and> length (data out) = total_size lhs
            \<and> (\<forall>i<total_size lhs.
                  data out ! i = minus_T ops (dtype lhs) (data lhs ! i) (data rhs ! i)))
       \<and> (\<exists>out. array_divide ops lhs rhs = Inr out \<and> shape out = shape lhs \<and> dtype out = dtype lhs
            \<and> length (data out) = total_size lhs
            \<and> (\<forall>i<total_size lhs.
                  data out ! i = divide_T ops (dtype lhs) (data lhs ! i) (data rhs ! i)))"
proof -
  have ts: "total_size rhs = total_size lhs"
    using assms(1) by (simp add: total_size_def)
  have k: "binary_kernel f lhs rhs (EmptyLike ops lhs) =
      Inr ((EmptyLike ops lhs)\<lparr>data := elementwise_loop (f (dtype lhs)) (data lhs) (data rhs)
             (total_size lhs) (data (EmptyLike ops lhs))\<rparr>)" for f
    using assms ts by (intro binary_kernel_ok) (simp_all add: EmptyLike_def)
  show ?thesis
    unfolding array_minus_def array_divide_def Subtract_def Divide_def k
    by (simp add: elementwise_loop_length elementwise_loop_nth EmptyLike_def)
qed

text \<open>The theorem on the arrays \<open>[6, 8]\<close> and \<open>[2, 4]\<close>.\<close>

theorem Subtract_Divide_elementwise_witness:
  "(\<exists>out. array_minus exact_arith (vec kFloat32 [6, 8]) (vec kFloat32 [2, 4]) = Inr out
      \<and> data out ! 0 = 4 \<and> data out ! 1 = 4)
   \<and> (\<exists>out. array_divide exact_arith (vec kFloat32 [6, 8]) (vec kFloat32 [2, 4]) = Inr out
      \<and> data out ! 0 = 3 \<and> data out ! 1 = 2)"
proof -
  let ?l = "vec kFloat32 [6, 8]" and ?r = "vec kFloat32 [2, 4]"
  have h: "shape ?r = shape ?l" "dtype ?r = dtype ?l"
    "length (data ?l) = total_size ?l" "length (data ?r) = total_size ?r"
    by (simp_all add: vec_def total_size_def)
  have n: "total_size ?l = 2" "data ?l = [6, 8]" "data ?r = [2, 4]" "dtype ?l = kFloat32"
    by (simp_all add: vec_def total_size_def)
  have a: "minus_T exact_arith d x y = x - y" "divide_T exact_arith d x y = x / y" for d x y
    by (simp_all add: exact_arith_def)
  from Subtract_Divide_elementwise [OF h, of exact_arith] show ?thesis
    unfolding n a by (elim conjE exE) (simp add: less_2_cases_iff numeral_2_eq_2)
qed

section \<open>Scalar accessor: \<open>Get\<close> and \<open>Set\<close>\<close>

lemma Get_supported:
  "dtype a = kFloat32 \<or> dtype a = kFloat64 \<Longrightarrow> k < length (data a) \<Longrightarrow>
   Get a (int k) = Inr (Scalar_from (dtype a) (data a ! k))"
  by (auto simp: Get_def in_buffer_def)

lemma Set_supported:
  "dtype a = kFloat32 \<or> dtype a = kFloat64 \<Longrightarrow> k < length (data a) \<Longrightarrow>
   Set ops a (int k) v = Inr (a\<lparr>data := (data a)[k := Scalar_to ops (dtype a) v]\<rparr>)"
  by (auto simp: Set_def in_buffer_def)

text \<open>
  Claim C8. For an array of a supported dtype and a flat index \<open>idx\<close> in
  \<open>[0, total_size)\<close>, \<^verbatim>\<open>Set(array, idx, v)\<close> followed by \<^verbatim>\<open>Get(array, idx)\<close> returns \<open>v\<close>
  converted to the element type of the array, as a \<^verbatim>\<open>Scalar\<close> of the array's dtype; that
  is \<open>v\<close> itself when \<open>v\<close> is a value of the array's dtype.
\<close>

theorem Get_Set_roundtrip:
  assumes "dtype a = kFloat32 \<or> dtype a = kFloat64"
    and "0 \<le> idx" and "idx < int (total_size a)"
    and "length (data a) = total_size a"
  shows "bind_err (Set ops a idx v) (\<lambda>a'. Get a' idx) =
           Inr (Scalar_from (dtype a) (Scalar_to ops (dtype a) v))
         \<and> (sdtype v = dtype a \<longrightarrow> bind_err (Set ops a idx v) (\<lambda>a'. Get a' idx) = Inr v)"
  using assms
  by (auto simp: Set_def Get_def in_buffer_def Scalar_from_def Scalar_to_def convert_def)

text \<open>The theorem on the 64-bit array \<open>[5, 7]\<close>, index 1 and the value 9.\<close>

theorem Get_Set_roundtrip_witness:
  "bind_err (Set exact_arith (vec kFloat64 [5, 7]) 1 \<lparr>sdtype = kFloat64, sval = 9\<rparr>)
     (\<lambda>a'. Get a' 1) = Inr \<lparr>sdtype = kFloat64, sval = 9\<rparr>"
proof -
  let ?a = "vec kFloat64 [5, 7]"
  have h: "dtype ?a = kFloat32 \<or> dtype ?a = kFloat64" "(0::int) \<le> 1" "1 < int (total_size ?a)"
    "length (data ?a) = total_size ?a"
    by (simp_all add: vec_def total_size_def)
  from Get_Set_roundtrip [OF h, of exact_arith "\<lparr>sdtype = kFloat64, sval = 9\<rparr>"]
  show ?thesis by (simp add: vec_def Scalar_from_def Scalar_to_def convert_def)
qed

text \<open>
  Claim C9. \<^verbatim>\<open>Get\<close>, \<^verbatim>\<open>Set\<close> and \<^verbatim>\<open>Sum\<close> on an array whose dtype is neither
  \<^verbatim>\<open>kFloat32\<close> nor \<^verbatim>\<open>kFloat64\<close> end in the failed \<^verbatim>\<open>assert(false)\<close>, whatever the index
  and the value (the dtype is tested before the buffer is touched); on an array of a
  supported dtype none of them reaches the assertion.
\<close>

theorem unsupported_dtype_assertion:
  "(dtype a \<noteq> kFloat32 \<and> dtype a \<noteq> kFloat64 \<longrightarrow>
      Get a idx = Inl AssertFalse \<and> Set ops a idx v = Inl AssertFalse \<and> Sum ops a = Inl AssertFalse)
   \<and> (dtype a = kFloat32 \<or> dtype a = kFloat64 \<longrightarrow>
      Get a idx \<noteq> Inl AssertFalse \<and> Set ops a idx v \<noteq> Inl AssertFalse
      \<and> Sum ops a \<noteq> Inl AssertFalse)"
  by (auto simp: Get_def Set_def Sum_def SumImpl_def bind_err_def Let_def split: if_splits)

text \<open>The theorem on an array of another dtype and on a 32-bit array.\<close>

theorem unsupported_dtype_assertion_witness:
  "Get (vec (kOtherDtype 0) [5, 7]) 1 = Inl AssertFalse
   \<and> Set exact_arith (vec (kOtherDtype 0) [5, 7]) 1 \<lparr>sdtype = kFloat64, sval = 9\<rparr> = Inl AssertFalse
   \<and> Sum exact_arith (vec (kOtherDtype 0) [5, 7]) = Inl AssertFalse
   \<and> Get (vec kFloat32 [5, 7]) 1 \<noteq> Inl AssertFalse
   \<and> Set exact_arith (vec kFloat32 [5, 7]) 1 \<lparr>sdtype = kFloat64, sval = 9\<rparr> \<noteq> Inl AssertFalse
   \<and> Sum exact_arith (vec kFloat32 [5, 7]) \<noteq> Inl AssertFalse"
proof -
  have d: "dtype (vec (kOtherDtype 0) [5, 7]) \<noteq> kFloat32 \<and> dtype (vec (kOtherDtype 0) [5, 7]) \<noteq> kFloat64"
    "dtype (vec kFloat32 [5, 7]) = kFloat32 \<or> dtype (vec kFloat32 [5, 7]) = kFloat64"
    by (simp_all add: vec_def)
  from unsupported_dtype_assertion [of "vec (kOtherDtype 0) [5, 7]" 1 exact_arith
      "\<lparr>sdtype = kFloat64, sval = 9\<rparr>"]
    unsupported_dtype_assertion [of "vec kFloat32 [5, 7]" 1 exact_arith
      "\<lparr>sdtype = kFloat64, sval = 9\<rparr>"] d
  show ?thesis by simp
qed

section \<open>Reductions: \<open>Sum\<close>, \<open>Norm\<close> and \<open>VectorDot\<close>\<close>

lemma SumImpl_foldl:
  assumes "length (data a) = total_size a"
  shows "SumImpl ops d a = Inr (foldl (plus_T ops d) (literal_T ops d 0) (data a))"
proof -
  have "fold (\<lambda>i s. plus_T ops d s (xs ! i)) [0..<n] z = foldl (plus_T ops d) z (take n xs)"
    if "n \<le> length xs" for xs n z
    using that
  proof (induction n)
    case 0
    then show ?case by simp
  next
    case (Suc n)
    then show ?case by (simp add: take_Suc_conv_app_nth)
  qed
  from this [of "total_size a" "data a"] assms show ?thesis
    by (simp add: SumImpl_def Let_def)
qed

lemma Sum_supported:
  assumes "dtype a = kFloat32 \<or> dtype a = kFloat64" and "length (data a) = total_size a"
  shows "Sum ops a = Inr \<lparr>sdtype = dtype a,
            sval = foldl (plus_T ops (dtype a)) (literal_T ops (dtype a) 0) (data a)\<rparr>"
  using assms by (auto simp: Sum_def SumImpl_foldl Scalar_from_def)

text \<open>
  Claim C6. For an array \<open>x\<close> of a supported dtype whose product \<^verbatim>\<open>x * x\<close> is the array
  \<open>xx\<close> of that dtype (its buffer as long as its shape says), \<^verbatim>\<open>Norm(x)\<close> is the \<^verbatim>\<open>Scalar\<close>
  of the dtype of \<open>x\<close> that holds the square root, taken on \<^verbatim>\<open>double\<close>, of the sum of the
  elements of \<open>xx\<close> converted to \<^verbatim>\<open>double\<close>; the sum adds the elements to 0 from the first
  to the last, in the type of the dtype. And \<^verbatim>\<open>VectorDot(x, y)\<close> is \<^verbatim>\<open>Sum\<close> of the product
  \<^verbatim>\<open>x * y\<close>.
\<close>

theorem Norm_VectorDot:
  assumes "dtype x = kFloat32 \<or> dtype x = kFloat64"
    and "array_times ops x x = Inr xx" and "dtype xx = dtype x"
    and "length (data xx) = total_size xx"
    and "array_times ops x y = Inr xy"
  shows "Norm ops x =
           Inr \<lparr>sdtype = dtype x,
                sval = convert ops kFloat64 (dtype x)
                         (sqrt_double ops
                            (convert ops (dtype x) kFloat64
                               (foldl (plus_T ops (dtype x)) (literal_T ops (dtype x) 0) (data xx))))\<rparr>
         \<and> VectorDot ops x y = Sum ops xy"
proof -
  have "Norm ops x = bind_err (Sum ops xx) (\<lambda>s.
     Inr (Scalar_of ops kFloat64 (sqrt_double ops (Scalar_to ops kFloat64 s)) (dtype x)))"
    by (simp add: Norm_def assms(2) external_def)
  moreover have "VectorDot ops x y = Sum ops xy"
    by (simp add: VectorDot_def assms(5) external_def)
  moreover have "Sum ops xx = Inr \<lparr>sdtype = dtype x,
            sval = foldl (plus_T ops (dtype x)) (literal_T ops (dtype x) 0) (data xx)\<rparr>"
    using Sum_supported [of xx ops] assms(1,3,4) by simp
  ultimately show ?thesis
    by (simp add: Scalar_of_def Scalar_to_def)
qed

text \<open>The theorem on \<open>x = [0, 2]\<close> and \<open>y = [3, 5]\<close>.\<close>

theorem Norm_VectorDot_witness:
  "Norm exact_arith (vec kFloat32 [0, 2]) = Inr \<lparr>sdtype = kFloat32, sval = 2\<rparr>
   \<and> VectorDot exact_arith (vec kFloat32 [0, 2]) (vec kFloat32 [3, 5])
       = Inr \<lparr>sdtype = kFloat32, sval = 10\<rparr>"
proof -
  let ?x = "vec kFloat32 [0, 2]" and ?y = "vec kFloat32 [3, 5]"
  let ?xx = "vec kFloat32 [0, 4]" and ?xy = "vec kFloat32 [0, 10]"
  have h: "dtype ?x = kFloat32 \<or> dtype ?x = kFloat64"
    "array_times exact_arith ?x ?x = Inr ?xx" "dtype ?xx = dtype ?x"
    "length (data ?xx) = total_size ?xx" "array_times exact_arith ?x ?y = Inr ?xy"
    by (simp_all add: exact_arith_def vec_def total_size_def)
  have s: "Sum exact_arith ?xy = Inr \<lparr>sdtype = kFloat32, sval = 10\<rparr>"
    by (simp add: Sum_supported vec_def total_size_def exact_arith_def)
  from Norm_VectorDot [OF h] s show ?thesis
    by (simp add: vec_def exact_arith_def convert_def)
qed

section \<open>The perturbation evaluator\<close>

lemma eval_result:
  assumes "i < length inputs" and "dtype (inputs ! i) = kFloat32 \<or> dtype (inputs ! i) = kFloat64"
    and "k < length (data (inputs ! i))"
  shows "eval ops func inputs dtype0 i (int k) e m s =
           call func (perturbed ops inputs i k
             (Scalar_of ops kFloat32 (times_T ops kFloat32 (Scalar_to ops kFloat32 e) m) dtype0)) s"
  using assms
  by (simp add: eval_def Let_def vector_at_def Get_supported Set_supported perturbed_def)

text \<open>
  Claim C10. The closure \<^verbatim>\<open>eval\<close> calls \<^verbatim>\<open>func\<close> on the inputs in which a \<^verbatim>\<open>Scalar\<close> was
  added to element \<open>k\<close> of input \<open>i\<close>. That \<^verbatim>\<open>Scalar\<close> is the perturbation magnitude \<open>e\<close>
  converted to \<^verbatim>\<open>float\<close>, multiplied in \<^verbatim>\<open>float\<close> by the multiplier \<open>m\<close>, and converted
  to \<open>dtype0\<close>, which \<^verbatim>\<open>CalculateNumericalGradient\<close> sets to the dtype of the first input.
  For a 64-bit \<open>e\<close> and a 64-bit first input it holds the value of \<open>e\<close> after the cast
  from \<^verbatim>\<open>double\<close> to \<^verbatim>\<open>float\<close>, the product with \<open>m\<close> in \<^verbatim>\<open>float\<close>, and the cast back to
  \<^verbatim>\<open>double\<close>.
\<close>

theorem eval_nudge_single_precision:
  assumes "i < length inputs" and "dtype (inputs ! i) = kFloat32 \<or> dtype (inputs ! i) = kFloat64"
    and "k < length (data (inputs ! i))"
  shows "eval ops func inputs dtype0 i (int k) e m s =
           call func (perturbed ops inputs i k
             (Scalar_of ops kFloat32 (times_T ops kFloat32 (Scalar_to ops kFloat32 e) m) dtype0)) s
         \<and> (sdtype e = kFloat64 \<and> dtype0 = kFloat64 \<longrightarrow>
              Scalar_of ops kFloat32 (times_T ops kFloat32 (Scalar_to ops kFloat32 e) m) dtype0 =
                \<lparr>sdtype = kFloat64,
                 sval = cast_T ops kFloat32 kFloat64
                          (times_T ops kFloat32 (cast_T ops kFloat64 kFloat32 (sval e)) m)\<rparr>)"
  using assms by (simp add: eval_result Scalar_of_def Scalar_to_def convert_def)

lemma round_example: "round (1073741825 / 128 :: real) = 8388608"
proof -
  have "1073741825 / 128 + 1 / 2 = (1073741889 / 128 :: real)"
    by simp
  then show ?thesis
    unfolding round_def by simp
qed

text \<open>
  The theorem on the 64-bit input \<open>[1, 2]\<close>, its element 1, the magnitude \<open>1/4\<close> and
  the multiplier \<open>-1\<close>: the identity function receives \<open>[1, 7/4]\<close>. And on the 64-bit
  input \<open>[3]\<close> with the magnitude \<open>1 + 2\<^sup>-\<^sup>3\<^sup>0\<close>, a \<^verbatim>\<open>double\<close> that the cast to \<^verbatim>\<open>float\<close>
  rounds to 1: the identity function receives \<open>[4]\<close>.
\<close>

theorem eval_nudge_single_precision_witness:
  "eval exact_arith counting_identity [vec kFloat64 [1, 2]] kFloat64 0 1
       \<lparr>sdtype = kFloat64, sval = 1 / 4\<rparr> (- 1) \<lparr>calls = 0, seeded = []\<rparr>
     = (Inr [vec kFloat64 [1, 7 / 4]], \<lparr>calls = 1, seeded = []\<rparr>)
   \<and> eval single_arith counting_identity [vec kFloat64 [3]] kFloat64 0 0
       \<lparr>sdtype = kFloat64, sval = 1 + 1 / 2 ^ 30\<rparr> 1 \<lparr>calls = 0, seeded = []\<rparr>
     = (Inr [vec kFloat64 [4]], \<lparr>calls = 1, seeded = []\<rparr>)"
proof -
  let ?x = "vec kFloat64 [1, 2]" and ?y = "vec kFloat64 [3]"
  have h: "0 < length [?x]" "dtype ([?x] ! 0) = kFloat32 \<or> dtype ([?x] ! 0) = kFloat64"
    "1 < length (data ([?x] ! 0))"
    by (simp_all add: vec_def)
  have h': "0 < length [?y]" "dtype ([?y] ! 0) = kFloat32 \<or> dtype ([?y] ! 0) = kFloat64"
    "0 < length (data ([?y] ! 0))"
    by (simp_all add: vec_def)
  have "eval exact_arith counting_identity [?x] kFloat64 0 1
       \<lparr>sdtype = kFloat64, sval = 1 / 4\<rparr> (- 1) \<lparr>calls = 0, seeded = []\<rparr>
     = (Inr [vec kFloat64 [1, 7 / 4]], \<lparr>calls = 1, seeded = []\<rparr>)"
    using eval_nudge_single_precision [OF h, of exact_arith counting_identity kFloat64
      "\<lparr>sdtype = kFloat64, sval = 1 / 4\<rparr>" "- 1" "\<lparr>calls = 0, seeded = []\<rparr>"]
    by (simp add: eval_defs call_def counting_identity_def)
  moreover have "eval single_arith counting_identity [?y] kFloat64 0 0
       \<lparr>sdtype = kFloat64, sval = 1 + 1 / 2 ^ 30\<rparr> 1 \<lparr>calls = 0, seeded = []\<rparr>
     = (Inr [vec kFloat64 [4]], \<lparr>calls = 1, seeded = []\<rparr>)"
    using eval_nudge_single_precision [OF h', of single_arith counting_identity kFloat64
      "\<lparr>sdtype = kFloat64, sval = 1 + 1 / 2 ^ 30\<rparr>" 1 "\<lparr>calls = 0, seeded = []\<rparr>"]
    by (simp add: call_def counting_identity_def perturbed_def vec_def Scalar_to_def Scalar_of_def
        Scalar_from_def convert_def external_def single_arith_def exact_arith_def round_example)
  ultimately show ?thesis by simp
qed

section \<open>The check of \<open>eps\<close>\<close>


lemma check_loop_fails:
  assumes "length eps = length inputs"
    and "\<forall>i\<in>set is. i < length inputs"
    and "\<exists>i\<in>set is. shape (eps ! i) \<noteq> shape (inputs ! i) \<or> dtype (eps ! i) \<noteq> dtype (inputs ! i)"
  shows "for_err (check_step inputs eps) is () \<in>
           {Inl (XchainerError ''Invalid eps shape''), Inl (XchainerError ''Invalid eps dtype'')}"
  using assms by (induction "is") (auto simp: check_step_def vector_at_def)

text \<open>
  Claim C2. When the number of \<open>eps\<close> arrays is not the number of inputs, or some
  \<open>eps[i]\<close> differs from \<open>inputs[i]\<close> in shape or dtype, \<^verbatim>\<open>CalculateNumericalGradient\<close>
  throws one of its three \<^verbatim>\<open>XchainerError\<close>s and leaves the state as it found it: for
  every function \<^verbatim>\<open>func\<close> and every state, so \<^verbatim>\<open>func\<close> was not called.
\<close>

theorem eps_mismatch_before_func:
  assumes "length eps \<noteq> length inputs
           \<or> (\<exists>i<length inputs. shape (eps ! i) \<noteq> shape (inputs ! i)
                                  \<or> dtype (eps ! i) \<noteq> dtype (inputs ! i))"
  shows "snd (CalculateNumericalGradient ops func inputs grad_outputs eps s) = s
         \<and> fst (CalculateNumericalGradient ops func inputs grad_outputs eps s) \<in>
             {Inl (XchainerError ''Invalid number of eps arrays''),
              Inl (XchainerError ''Invalid eps shape''),
              Inl (XchainerError ''Invalid eps dtype'')}"
proof (cases "length eps = length inputs")
  case False
  then show ?thesis
    by (simp add: CalculateNumericalGradient_def pure_st_def)
next
  case True
  with assms have "\<exists>i\<in>set [0..<length inputs].
      shape (eps ! i) \<noteq> shape (inputs ! i) \<or> dtype (eps ! i) \<noteq> dtype (inputs ! i)"
    by auto
  with True have "for_err (check_step inputs eps) [0..<length inputs] () \<in>
           {Inl (XchainerError ''Invalid eps shape''), Inl (XchainerError ''Invalid eps dtype'')}"
    by (intro check_loop_fails) simp_all
  then show ?thesis
    using True by (auto simp: CalculateNumericalGradient_def)
qed

text \<open>
  The theorem with no \<open>eps\<close> array for one input, and with a 64-bit \<open>eps\<close> array for a
  32-bit input: the counter of calls stays 0.
\<close>

theorem eps_mismatch_before_func_witness:
  "snd (CalculateNumericalGradient exact_arith counting_identity
          [vec kFloat32 [1, 2]] [vec kFloat32 [1, 1]] [] \<lparr>calls = 0, seeded = []\<rparr>)
     = \<lparr>calls = 0, seeded = []\<rparr>
   \<and> fst (CalculateNumericalGradient exact_arith counting_identity
          [vec kFloat32 [1, 2]] [vec kFloat32 [1, 1]] [] \<lparr>calls = 0, seeded = []\<rparr>)
     = Inl (XchainerError ''Invalid number of eps arrays'')
   \<and> snd (CalculateNumericalGradient exact_arith counting_identity
          [vec kFloat32 [1, 2]] [vec kFloat32 [1, 1]] [vec kFloat64 [1 / 2, 1 / 4]]
          \<lparr>calls = 0, seeded = []\<rparr>)
     = \<lparr>calls = 0, seeded = []\<rparr>"
proof -
  let ?x = "vec kFloat32 [1, 2]" and ?e = "vec kFloat64 [1 / 2, 1 / 4]"
  have h1: "length ([]::real Array list) \<noteq> length [?x]
           \<or> (\<exists>i<length [?x]. shape ([] ! i) \<noteq> shape ([?x] ! i)
                                  \<or> dtype ([] ! i) \<noteq> dtype ([?x] ! i))"
    by simp
  have h2: "length [?e] \<noteq> length [?x]
           \<or> (\<exists>i<length [?x]. shape ([?e] ! i) \<noteq> shape ([?x] ! i)
                                  \<or> dtype ([?e] ! i) \<noteq> dtype ([?x] ! i))"
    by (simp add: vec_def)
  have r: "fst (CalculateNumericalGradient exact_arith counting_identity
          [?x] [vec kFloat32 [1, 1]] [] \<lparr>calls = 0, seeded = []\<rparr>)
     = Inl (XchainerError ''Invalid number of eps arrays'')"
    by (simp add: CalculateNumericalGradient_def pure_st_def)
  from eps_mismatch_before_func [OF h1, of exact_arith counting_identity "[vec kFloat32 [1, 1]]"
      "\<lparr>calls = 0, seeded = []\<rparr>"]
    eps_mismatch_before_func [OF h2, of exact_arith counting_identity "[vec kFloat32 [1, 1]]"
      "\<lparr>calls = 0, seeded = []\<rparr>"]
    r
  show ?thesis by simp
qed

section \<open>The numerical gradient estimator\<close>

subsection \<open>The loop over the outputs\<close>



subsection \<open>The loop over the elements of one input\<close>






subsection \<open>The loop over the inputs\<close>




subsection \<open>The value of a contribution\<close>








section \<open>The backward check\<close>

subsection \<open>No assertion error before the comparison\<close>

text \<open>
  Nothing that runs before the comparison loop ends in an \<^verbatim>\<open>AssertionError\<close>: the file
  throws it in that loop only, and an exception of an external collaborator is kept
  apart from the errors of the file.
\<close>

named_theorems no_assertion

lemma no_assertion_Inr [no_assertion]: "\<not> raises_assertion (Inr x)"
  by (simp add: raises_assertion_def)

lemma no_assertion_Inl [simp]: "raises_assertion (Inl e) \<longleftrightarrow> (\<exists>m. e = AssertionError m)"
  by (simp add: raises_assertion_def)

lemma no_assertion_bind_err [no_assertion]:
  "\<not> raises_assertion r \<Longrightarrow> (\<And>x. \<not> raises_assertion (f x)) \<Longrightarrow> \<not> raises_assertion (bind_err r f)"
  by (cases r) (simp_all add: bind_err_def)

lemma no_assertion_external [no_assertion]: "\<not> raises_assertion (external r)"
  by (cases r) (simp_all add: external_def no_assertion_Inr)

lemma no_assertion_for_err [no_assertion]:
  "(\<And>i acc. \<not> raises_assertion (body i acc)) \<Longrightarrow> \<not> raises_assertion (for_err body is acc)"
proof (induction "is" arbitrary: acc)
  case Nil
  then show ?case by (simp add: no_assertion_Inr)
next
  case (Cons i "is")
  from Cons.prems [of i acc] Cons.IH [OF Cons.prems] show ?case
    by (cases "body i acc") simp_all
qed

lemma no_assertion_pure_st [no_assertion]:
  "\<not> raises_assertion r \<Longrightarrow> \<not> raises_assertion (fst (pure_st r s))"
  by (simp add: pure_st_def)

lemma no_assertion_bind_st [no_assertion]:
  "(\<And>s. \<not> raises_assertion (fst (m s))) \<Longrightarrow> (\<And>x t. \<not> raises_assertion (fst (f x t))) \<Longrightarrow>
   \<not> raises_assertion (fst (bind_st m f s))"
proof -
  assume m: "\<And>s. \<not> raises_assertion (fst (m s))" and f: "\<And>x t. \<not> raises_assertion (fst (f x t))"
  obtain r s' where ms: "m s = (r, s')" by (cases "m s")
  from m [of s] ms have "\<not> raises_assertion r" by simp
  then show ?thesis
    using f by (cases r) (simp_all add: bind_st_def ms)
qed

lemma no_assertion_for_st [no_assertion]:
  "(\<And>i acc s. \<not> raises_assertion (fst (body i acc s))) \<Longrightarrow>
   \<not> raises_assertion (fst (for_st body is acc s))"
proof (induction "is" arbitrary: acc s)
  case Nil
  then show ?case by (simp add: no_assertion_Inr)
next
  case (Cons i "is")
  obtain r s' where b: "body i acc s = (r, s')" by (cases "body i acc s")
  from Cons.prems [of i acc s] b have "\<not> raises_assertion r" by simp
  then show ?case
    using Cons.IH [OF Cons.prems] by (cases r) (simp_all add: b)
qed

lemma no_assertion_vector_at [no_assertion]: "\<not> raises_assertion (vector_at xs i)"
  by (simp add: vector_at_def no_assertion_Inr)

lemma no_assertion_vector_index [no_assertion]: "\<not> raises_assertion (vector_index xs i)"
  by (simp add: vector_index_def no_assertion_Inr)

lemma no_assertion_Get [no_assertion]: "\<not> raises_assertion (Get a k)"
  by (simp add: Get_def no_assertion_Inr)

lemma no_assertion_Set [no_assertion]: "\<not> raises_assertion (Set ops a k v)"
  by (simp add: Set_def no_assertion_Inr)

lemma no_assertion_binary_kernel: "\<not> raises_assertion (binary_kernel f lhs rhs out)"
  by (simp add: binary_kernel_def Let_def no_assertion_Inr)

lemma no_assertion_array_minus [no_assertion]: "\<not> raises_assertion (array_minus ops lhs rhs)"
  by (simp add: array_minus_def Subtract_def no_assertion_binary_kernel)

lemma no_assertion_array_divide [no_assertion]: "\<not> raises_assertion (array_divide ops lhs rhs)"
  by (simp add: array_divide_def Divide_def no_assertion_binary_kernel)

lemma no_assertion_Sum [no_assertion]: "\<not> raises_assertion (Sum ops x)"
  by (simp add: Sum_def SumImpl_def Let_def bind_err_def no_assertion_Inr)

lemma no_assertion_VectorDot [no_assertion]: "\<not> raises_assertion (VectorDot ops x y)"
  unfolding VectorDot_def by (intro no_assertion)

lemma no_assertion_MemoryCopy [no_assertion]: "\<not> raises_assertion (MemoryCopy dst src n)"
  by (simp add: MemoryCopy_def no_assertion_Inr)

lemma no_assertion_call [no_assertion]: "\<not> raises_assertion (fst (call func xs s))"
  by (cases "func xs s") (simp add: call_def no_assertion_external)

lemma no_assertion_eval [no_assertion]:
  "\<not> raises_assertion (fst (eval ops func inputs dtype0 i k e m s))"
  unfolding eval_def Let_def by (intro no_assertion)

lemma no_assertion_output_step [no_assertion]:
  "\<not> raises_assertion (output_step ops ys0 ys1 denom grad_outputs k j grad_i)"
  unfolding output_step_def by (intro no_assertion)

lemma no_assertion_element_step [no_assertion]:
  "\<not> raises_assertion (fst (element_step ops func inputs grad_outputs eps dtype0 i k grad_i s))"
  unfolding element_step_def by (intro no_assertion)

lemma no_assertion_input_step [no_assertion]:
  "\<not> raises_assertion (fst (input_step ops func inputs grad_outputs eps dtype0 i grads s))"
  unfolding input_step_def Let_def by (intro no_assertion)

lemma no_assertion_check_step [no_assertion]: "\<not> raises_assertion (check_step inputs eps i u)"
  unfolding check_step_def by (intro no_assertion) (simp add: no_assertion_Inr)

lemma no_assertion_CalculateNumericalGradient [no_assertion]:
  "\<not> raises_assertion (fst (CalculateNumericalGradient ops func inputs grad_outputs eps s))"
proof (cases inputs)
  case Nil
  then show ?thesis
    by (simp add: CalculateNumericalGradient_def pure_st_def bind_st_def)
next
  case (Cons x0 rest)
  show ?thesis
    unfolding CalculateNumericalGradient_def Let_def Cons list.case
    by (simp add: pure_st_def no_assertion del: upt_Suc; intro no_assertion)
qed

lemma no_assertion_gradients:
  "\<not> raises_assertion (fst (gradients au ops func inputs grad_outputs eps s))"
proof -
  have id_step: "\<not> raises_assertion (fst (Identity_step au ys i outs t))" for ys i outs t
    unfolding Identity_step_def by (intro no_assertion) (simp_all add: no_assertion_Inr)
  have ident: "\<not> raises_assertion (fst (Identity au ops ys t))" for ys t
    unfolding Identity_def Identity_into_def Let_def by (intro no_assertion id_step)
  have seed: "\<not> raises_assertion (fst (seed_step au outs grad_outputs i u t))" for outs i u t
    unfolding seed_step_def by (intro no_assertion) (simp_all add: no_assertion_Inr)
  have bw: "\<not> raises_assertion (fst (run_Backward au outs t))" for outs t
    unfolding run_Backward_def
    by (intro no_assertion) (auto simp: no_assertion_Inr split: prod.splits option.splits)
  have grads: "\<not> raises_assertion (input_grad_step au inputs t i gs)" for t i gs
    unfolding input_grad_step_def
    by (intro no_assertion) (auto simp: no_assertion_Inr split: option.splits)
  have rest: "\<not> raises_assertion (fst ((
       if length outs \<noteq> length grad_outputs
       then pure_st (Inl (InvalidArgument
              ''Number of given output gradients does not match the actual number of outputs''))
       else
         bind_st (for_st (seed_step au outs grad_outputs) [0..<length outs] ()) (\<lambda>u.
         bind_st (run_Backward au outs) (\<lambda>u.
         bind_st (\<lambda>s. (for_err (input_grad_step au inputs s) [0..<length inputs] [], s)) (\<lambda>backward_grads.
         bind_st (CalculateNumericalGradient ops func inputs grad_outputs eps) (\<lambda>numerical_grads.
         pure_st (Inr (backward_grads, numerical_grads))))))) t))" for outs t
  proof (cases "length outs \<noteq> length grad_outputs")
    case True
    then show ?thesis by (simp add: pure_st_def)
  next
    case False
    then show ?thesis
      by (simp del: upt_Suc; intro no_assertion seed bw; simp add: no_assertion grads del: upt_Suc)
  qed
  show ?thesis
    unfolding gradients_def by (intro no_assertion ident rest)
qed

subsection \<open>The gradients that are compared\<close>

lemma input_loop_length:
  "for_st (input_step ops func inputs grad_outputs eps d) is grads s = (Inr grads', s') \<Longrightarrow>
   length grads' = length grads + length is"
proof (induction "is" arbitrary: grads s)
  case Nil
  then show ?case by simp
next
  case (Cons i "is")
  obtain r t where b: "input_step ops func inputs grad_outputs eps d i grads s = (r, t)"
    by (cases "input_step ops func inputs grad_outputs eps d i grads s")
  with Cons.prems obtain g where r: "r = Inr g"
    by (cases r) simp_all
  have "length g = Suc (length grads)"
    using b unfolding r input_step_def Let_def
    by (auto simp: bind_st_def pure_st_def split: sum.splits prod.splits)
  moreover have "length grads' = length g + length is"
    using Cons.prems b r by (intro Cons.IH [of g t]) simp
  ultimately show ?case by simp
qed

lemma CalculateNumericalGradient_length:
  assumes "CalculateNumericalGradient ops func inputs grad_outputs eps s = (Inr grads, s')"
  shows "length grads = length inputs"
proof (cases inputs)
  case Nil
  with assms show ?thesis
    by (auto simp: CalculateNumericalGradient_def pure_st_def bind_st_def split: if_splits)
next
  case (Cons x0 rest)
  from assms have "for_st (input_step ops func inputs grad_outputs eps (dtype x0)) [0..<length inputs] [] s
      = (Inr grads, s')"
    unfolding CalculateNumericalGradient_def Let_def Cons list.case
    by (auto simp: pure_st_def bind_st_def simp del: upt_Suc split: if_splits sum.splits)
  from input_loop_length [OF this] show ?thesis by simp
qed

lemma seed_loop:
  assumes "\<forall>i\<in>set is. i < length outputs \<and> i < length grad_outputs"
  shows "for_st (seed_step au outputs grad_outputs) is () s =
           (Inr (), fold (\<lambda>i. set_grad au i (outputs ! i) (grad_outputs ! i)) is s)"
  using assms
  by (induction "is" arbitrary: s) (simp_all add: seed_step_def vector_index_def)

lemma seed_loop_all:
  assumes "length outputs = length grad_outputs"
  shows "for_st (seed_step au outputs grad_outputs) [0..<length outputs] () s =
           (Inr (), seeded_state au outputs grad_outputs s)"
  unfolding seeded_state_def using assms by (intro seed_loop) simp

lemma seed_loop_all':
  assumes "length outputs = length grad_outputs"
  shows "for_st (seed_step au outputs grad_outputs) [0..<length grad_outputs] () s =
           (Inr (), seeded_state au outputs grad_outputs s)"
  using seed_loop_all [OF assms] assms by simp

lemma run_Backward_iff:
  "run_Backward au outputs s = (Inr u, s4) \<longleftrightarrow>
     outputs \<noteq> [] \<and> Backward au (outputs ! 0) s = (None, s4)"
  by (cases outputs; cases "Backward au (outputs ! 0) s")
     (auto simp: run_Backward_def vector_index_def split: option.splits)

lemma input_grad_loop_iff:
  "for_err (input_grad_step au inputs s) [0..<n] [] = Inr bg \<longleftrightarrow>
     n \<le> length inputs \<and> length bg = n \<and> (\<forall>i<n. grad au i (inputs ! i) s = Some (bg ! i))"
proof (induction n arbitrary: bg)
  case 0
  then show ?case by auto
next
  case (Suc n)
  show ?case
  proof (cases "for_err (input_grad_step au inputs s) [0..<n] []")
    case (Inl e)
    have "\<not> (n \<le> length inputs \<and> length (butlast bg) = n
        \<and> (\<forall>i<n. grad au i (inputs ! i) s = Some (butlast bg ! i)))"
      using Suc.IH [of "butlast bg"] Inl by simp
    then have "\<not> (Suc n \<le> length inputs \<and> length bg = Suc n
        \<and> (\<forall>i<Suc n. grad au i (inputs ! i) s = Some (bg ! i)))"
      by (auto simp: nth_butlast less_Suc_eq)
    then show ?thesis
      by (simp add: for_err_append Inl)
  next
    case (Inr bg0)
    with Suc.IH [of bg0] have bg0: "n \<le> length inputs" "length bg0 = n"
      "\<forall>i<n. grad au i (inputs ! i) s = Some (bg0 ! i)"
      by simp_all
    have step: "for_err (input_grad_step au inputs s) ([0..<n] @ [n]) [] =
        input_grad_step au inputs s n bg0"
      by (simp add: for_err_append Inr split: sum.splits)
    show ?thesis
    proof
      assume "for_err (input_grad_step au inputs s) [0..<Suc n] [] = Inr bg"
      then have "input_grad_step au inputs s n bg0 = Inr bg" by (simp add: step)
      then obtain g where "n < length inputs" "grad au n (inputs ! n) s = Some g" "bg = bg0 @ [g]"
        by (auto simp: input_grad_step_def vector_index_def split: if_splits option.splits)
      with bg0 show "Suc n \<le> length inputs \<and> length bg = Suc n
          \<and> (\<forall>i<Suc n. grad au i (inputs ! i) s = Some (bg ! i))"
        by (auto simp: nth_append less_Suc_eq)
    next
      assume r: "Suc n \<le> length inputs \<and> length bg = Suc n
          \<and> (\<forall>i<Suc n. grad au i (inputs ! i) s = Some (bg ! i))"
      have "\<forall>i<n. bg0 ! i = bg ! i"
        using bg0(3) r by (metis less_Suc_eq option.inject)
      with bg0(2) r have "bg = bg0 @ [bg ! n]"
        by (intro nth_equalityI) (auto simp: nth_append less_Suc_eq)
      with r show "for_err (input_grad_step au inputs s) [0..<Suc n] [] = Inr bg"
        by (simp add: step input_grad_step_def vector_index_def)
    qed
  qed
qed

lemma gradients_of_run:
  assumes "backward_check_run au ops func inputs grad_outputs eps s ys s1 outputs s2 s4 bg ng s5"
  shows "gradients au ops func inputs grad_outputs eps s = (Inr (bg, ng), s5)"
proof -
  from assms have c: "call func inputs s = (Inr ys, s1)"
    and ident: "Identity au ops ys s1 = (Inr outputs, s2)"
    and len: "length outputs = length grad_outputs"
    and rb: "run_Backward au outputs (seeded_state au outputs grad_outputs s2) = (Inr (), s4)"
    and ig: "for_err (input_grad_step au inputs s4) [0..<length inputs] [] = Inr bg"
    and ng: "CalculateNumericalGradient ops func inputs grad_outputs eps s4 = (Inr ng, s5)"
    by (simp_all add: backward_check_run_def call_iff run_Backward_iff input_grad_loop_iff)
  show ?thesis
    unfolding gradients_def
    apply (subst bind_st_Inr [where m = "call func inputs", OF c])
    apply (subst bind_st_Inr [where m = "Identity au ops ys", OF ident])
    apply (simp add: len bind_st_def pure_st_def seed_loop_all' rb ig ng)
    done
qed

lemma run_of_gradients:
  assumes "gradients au ops func inputs grad_outputs eps s = (Inr (bg, ng), s5)"
  shows "\<exists>ys s1 outputs s2 s4.
           backward_check_run au ops func inputs grad_outputs eps s ys s1 outputs s2 s4 bg ng s5"
  using assms unfolding gradients_def backward_check_run_def
  by (auto simp: bind_st_Inr_iff pure_st_def call_iff run_Backward_iff input_grad_loop_iff
      seed_loop_all seed_loop_all' split: if_splits)

subsection \<open>The comparison loop\<close>

lemma compare_step_result:
  assumes "i < length bg" and "length ng = length bg"
  shows "compare_step au bg ng atol rtol i u =
           (case AllClose au (bg ! i) (ng ! i) atol rtol of
              Inl m \<Rightarrow> Inl (External m)
            | Inr close \<Rightarrow> if close then Inr () else Inl (AssertionError ''too large errors''))"
  using assms by (simp add: compare_step_def vector_index_def external_def split: sum.splits)

lemma compare_loop:
  assumes "n \<le> length bg" and "length ng = length bg"
  shows "(for_err (compare_step au bg ng atol rtol) [0..<n] () = Inr ()
            \<longleftrightarrow> (\<forall>i<n. AllClose au (bg ! i) (ng ! i) atol rtol = Inr True))
       \<and> (for_err (compare_step au bg ng atol rtol) [0..<n] () = Inl (AssertionError ''too large errors'')
            \<longleftrightarrow> (\<exists>i<n. AllClose au (bg ! i) (ng ! i) atol rtol = Inr False
                        \<and> (\<forall>i'<i. AllClose au (bg ! i') (ng ! i') atol rtol = Inr True)))"
  using assms(1)
proof (induction n)
  case 0
  then show ?case by simp
next
  case (Suc n)
  let ?c = "\<lambda>i. AllClose au (bg ! i) (ng ! i) atol rtol"
  let ?loop = "\<lambda>n. for_err (compare_step au bg ng atol rtol) [0..<n] ()"
  from Suc have IH1: "?loop n = Inr () \<longleftrightarrow> (\<forall>i<n. ?c i = Inr True)"
    and IH2: "?loop n = Inl (AssertionError ''too large errors'')
            \<longleftrightarrow> (\<exists>i<n. ?c i = Inr False \<and> (\<forall>i'<i. ?c i' = Inr True))"
    by simp_all
  have n: "n < length bg" using Suc.prems by simp
  have step: "?loop (Suc n) = bind_err (?loop n) (compare_step au bg ng atol rtol n)"
    by (simp add: for_err_append for_err_single)
  show ?case
  proof (cases "?loop n")
    case (Inr u)
    then have all: "\<forall>i<n. ?c i = Inr True" using IH1 by simp
    have res: "?loop (Suc n) = (case ?c n of
              Inl m \<Rightarrow> Inl (External m)
            | Inr close \<Rightarrow> if close then Inr () else Inl (AssertionError ''too large errors''))"
      unfolding step Inr using compare_step_result [OF n assms(2)] by simp
    have a: "?loop (Suc n) = Inr () \<longleftrightarrow> (\<forall>i<Suc n. ?c i = Inr True)"
      unfolding res using all by (auto simp: less_Suc_eq split: sum.splits)
    have "?loop (Suc n) = Inl (AssertionError ''too large errors'') \<longleftrightarrow> ?c n = Inr False"
      unfolding res by (auto split: sum.splits)
    also have "\<dots> \<longleftrightarrow> (\<exists>i<Suc n. ?c i = Inr False \<and> (\<forall>i'<i. ?c i' = Inr True))"
      using all by (auto simp: less_Suc_eq)
    finally show ?thesis using a by simp
  next
    case (Inl e)
    then have res: "?loop (Suc n) = Inl e" unfolding step by simp
    from Inl IH1 obtain i where i: "i < n" "?c i \<noteq> Inr True" by auto
    have a: "?loop (Suc n) = Inr () \<longleftrightarrow> (\<forall>i<Suc n. ?c i = Inr True)"
      unfolding res using i by (auto simp: less_Suc_eq)
    have "(\<exists>i<Suc n. ?c i = Inr False \<and> (\<forall>i'<i. ?c i' = Inr True))
        \<longleftrightarrow> (\<exists>i<n. ?c i = Inr False \<and> (\<forall>i'<i. ?c i' = Inr True))"
      using i by (auto simp: less_Suc_eq)
    then have "?loop (Suc n) = Inl (AssertionError ''too large errors'')
        \<longleftrightarrow> (\<exists>i<Suc n. ?c i = Inr False \<and> (\<forall>i'<i. ?c i' = Inr True))"
      unfolding res using IH2 Inl by simp
    then show ?thesis using a by simp
  qed
qed

text \<open>
  Claim C4. Let lines 212 to 228 run through: \<open>bg\<close> are the gradients that the inputs
  hold after \<^verbatim>\<open>Backward\<close> was started from the outputs of \<^verbatim>\<open>Identity(func(inputs))\<close> with
  the output gradients set, and \<open>ng\<close> are the gradients that \<^verbatim>\<open>CalculateNumericalGradient\<close>
  returns. Then \<^verbatim>\<open>CheckBackwardComputation\<close> throws the \<^verbatim>\<open>AssertionError\<close> ``too large
  errors'' exactly when \<^verbatim>\<open>AllClose\<close> returns false for some input \<open>i\<close> and has returned
  true for every input before it, in the order of the inputs; when \<^verbatim>\<open>AllClose\<close> returns a
  truth value for every input, that is exactly when it returns false for some input.
  The function returns normally, with no value, exactly when \<^verbatim>\<open>AllClose\<close> returns true
  for every input. In both cases the state is the one that
  \<^verbatim>\<open>CalculateNumericalGradient\<close> left. In no other run does the function throw this error
  or return normally: if it does either, lines 212 to 228 have run through.
\<close>

theorem CheckBackwardComputation_too_large_errors:
  "(backward_check_run au ops func inputs grad_outputs eps s ys s1 outputs s2 s4 bg ng s5 \<longrightarrow>
      (fst (CheckBackwardComputation au ops func inputs grad_outputs eps atol rtol s)
          = Inl (AssertionError ''too large errors'')
        \<longleftrightarrow> (\<exists>i<length inputs. AllClose au (bg ! i) (ng ! i) atol rtol = Inr False
              \<and> (\<forall>i'<i. AllClose au (bg ! i') (ng ! i') atol rtol = Inr True)))
      \<and> (fst (CheckBackwardComputation au ops func inputs grad_outputs eps atol rtol s) = Inr ()
        \<longleftrightarrow> (\<forall>i<length inputs. AllClose au (bg ! i) (ng ! i) atol rtol = Inr True))
      \<and> ((\<forall>i<length inputs. \<exists>close. AllClose au (bg ! i) (ng ! i) atol rtol = Inr close) \<longrightarrow>
           (fst (CheckBackwardComputation au ops func inputs grad_outputs eps atol rtol s)
              = Inl (AssertionError ''too large errors'')
            \<longleftrightarrow> (\<exists>i<length inputs. AllClose au (bg ! i) (ng ! i) atol rtol = Inr False)))
      \<and> snd (CheckBackwardComputation au ops func inputs grad_outputs eps atol rtol s) = s5)
   \<and> (fst (CheckBackwardComputation au ops func inputs grad_outputs eps atol rtol s)
          = Inl (AssertionError ''too large errors'')
        \<or> fst (CheckBackwardComputation au ops func inputs grad_outputs eps atol rtol s) = Inr ()
      \<longrightarrow> (\<exists>ys s1 outputs s2 s4 bg ng s5.
            backward_check_run au ops func inputs grad_outputs eps s ys s1 outputs s2 s4 bg ng s5))"
proof (intro conjI impI)
  assume run: "backward_check_run au ops func inputs grad_outputs eps s ys s1 outputs s2 s4 bg ng s5"
  then have g: "gradients au ops func inputs grad_outputs eps s = (Inr (bg, ng), s5)"
    by (rule gradients_of_run)
  from run have lb: "length bg = length inputs"
    and "CalculateNumericalGradient ops func inputs grad_outputs eps s4 = (Inr ng, s5)"
    by (simp_all add: backward_check_run_def)
  then have ln: "length ng = length bg"
    using CalculateNumericalGradient_length by fastforce
  have res: "CheckBackwardComputation au ops func inputs grad_outputs eps atol rtol s =
      (for_err (compare_step au bg ng atol rtol) [0..<length bg] (), s5)"
    by (simp add: CheckBackwardComputation_def bind_st_def g pure_st_def)
  from compare_loop [OF le_refl ln, of au atol rtol]
  show first: "fst (CheckBackwardComputation au ops func inputs grad_outputs eps atol rtol s)
          = Inl (AssertionError ''too large errors'')
        \<longleftrightarrow> (\<exists>i<length inputs. AllClose au (bg ! i) (ng ! i) atol rtol = Inr False
              \<and> (\<forall>i'<i. AllClose au (bg ! i') (ng ! i') atol rtol = Inr True))"
    and "fst (CheckBackwardComputation au ops func inputs grad_outputs eps atol rtol s) = Inr ()
        \<longleftrightarrow> (\<forall>i<length inputs. AllClose au (bg ! i) (ng ! i) atol rtol = Inr True)"
    and "snd (CheckBackwardComputation au ops func inputs grad_outputs eps atol rtol s) = s5"
    by (simp_all add: res lb)
  show "fst (CheckBackwardComputation au ops func inputs grad_outputs eps atol rtol s)
          = Inl (AssertionError ''too large errors'')
        \<longleftrightarrow> (\<exists>i<length inputs. AllClose au (bg ! i) (ng ! i) atol rtol = Inr False)"
    if total: "\<forall>i<length inputs. \<exists>close. AllClose au (bg ! i) (ng ! i) atol rtol = Inr close"
  proof -
    let ?fails = "\<lambda>i. i < length inputs \<and> AllClose au (bg ! i) (ng ! i) atol rtol = Inr False"
    have "(\<exists>i. ?fails i) \<longleftrightarrow> (\<exists>i. ?fails i \<and> (\<forall>i'<i. \<not> ?fails i'))"
      by (rule exists_least_iff)
    also have "\<dots> \<longleftrightarrow> (\<exists>i<length inputs. AllClose au (bg ! i) (ng ! i) atol rtol = Inr False
              \<and> (\<forall>i'<i. AllClose au (bg ! i') (ng ! i') atol rtol = Inr True))"
    proof
      assume "\<exists>i. ?fails i \<and> (\<forall>i'<i. \<not> ?fails i')"
      then obtain i where i: "i < length inputs" "AllClose au (bg ! i) (ng ! i) atol rtol = Inr False"
          "\<forall>i'<i. \<not> ?fails i'"
        by blast
      have "AllClose au (bg ! i') (ng ! i') atol rtol = Inr True" if "i' < i" for i'
      proof -
        from that i(1) have l: "i' < length inputs" by simp
        with total obtain close where c: "AllClose au (bg ! i') (ng ! i') atol rtol = Inr close"
          by blast
        with i(3) that l have "close" by auto
        with c show ?thesis by simp
      qed
      with i(1,2) show "\<exists>i<length inputs. AllClose au (bg ! i) (ng ! i) atol rtol = Inr False
              \<and> (\<forall>i'<i. AllClose au (bg ! i') (ng ! i') atol rtol = Inr True)"
        by blast
    next
      assume "\<exists>i<length inputs. AllClose au (bg ! i) (ng ! i) atol rtol = Inr False
              \<and> (\<forall>i'<i. AllClose au (bg ! i') (ng ! i') atol rtol = Inr True)"
      then obtain i where "i < length inputs" "AllClose au (bg ! i) (ng ! i) atol rtol = Inr False"
          "\<forall>i'<i. AllClose au (bg ! i') (ng ! i') atol rtol = Inr True"
        by blast
      then have "?fails i \<and> (\<forall>i'<i. \<not> ?fails i')" by simp
      then show "\<exists>i. ?fails i \<and> (\<forall>i'<i. \<not> ?fails i')" ..
    qed
    finally show ?thesis using first by blast
  qed
next
  assume r: "fst (CheckBackwardComputation au ops func inputs grad_outputs eps atol rtol s)
          = Inl (AssertionError ''too large errors'')
        \<or> fst (CheckBackwardComputation au ops func inputs grad_outputs eps atol rtol s) = Inr ()"
  obtain g t where g: "gradients au ops func inputs grad_outputs eps s = (g, t)"
    by (cases "gradients au ops func inputs grad_outputs eps s")
  have "\<exists>bg ng. g = Inr (bg, ng)"
  proof (cases g)
    case (Inl e)
    have "\<not> raises_assertion (Inl e :: error + 'a Array list \<times> 'a Array list)"
      using no_assertion_gradients [of au ops func inputs grad_outputs eps s] g Inl by simp
    moreover have "fst (CheckBackwardComputation au ops func inputs grad_outputs eps atol rtol s) = Inl e"
      by (simp add: CheckBackwardComputation_def bind_st_def g Inl)
    ultimately show ?thesis using r by auto
  next
    case (Inr p)
    then show ?thesis by (cases p) simp
  qed
  then obtain bg ng where "gradients au ops func inputs grad_outputs eps s = (Inr (bg, ng), t)"
    using g by auto
  from run_of_gradients [OF this]
  show "\<exists>ys s1 outputs s2 s4 bg ng s5.
            backward_check_run au ops func inputs grad_outputs eps s ys s1 outputs s2 s4 bg ng s5"
    by blast
qed

text \<open>
  The theorem on two inputs \<open>[1]\<close> and \<open>[3]\<close> with the output gradients \<open>[1]\<close> and \<open>[1]\<close>,
  the magnitudes \<open>1/2\<close> and the tolerances \<open>1/4\<close>; backprop returns the gradients of the
  identity function, \<open>[1]\<close> and \<open>[1]\<close>. For the function that doubles the second input
  the numerical gradients are \<open>[1]\<close> and \<open>[2]\<close>: the first input passes, the second
  fails, the error is thrown. For the identity function both inputs pass and the
  function returns. For the function that doubles the first input, with a second input
  of shape \<open>(1, 1)\<close>, the first input fails and the error is thrown, although
  \<^verbatim>\<open>AllClose\<close> of this autograd system throws on the second input, whose gradients
  differ in shape: the loop never reaches it.
\<close>

theorem CheckBackwardComputation_too_large_errors_witness:
  "fst (CheckBackwardComputation identity_autograd exact_arith (counting_scale [1, 2])
      [vec kFloat32 [1], vec kFloat32 [3]] [vec kFloat32 [1], vec kFloat32 [1]]
      [vec kFloat32 [1 / 2], vec kFloat32 [1 / 2]] (1 / 4) (1 / 4) \<lparr>calls = 0, seeded = []\<rparr>)
     = Inl (AssertionError ''too large errors'')
   \<and> fst (CheckBackwardComputation identity_autograd exact_arith (counting_scale [1, 1])
      [vec kFloat32 [1], vec kFloat32 [3]] [vec kFloat32 [1], vec kFloat32 [1]]
      [vec kFloat32 [1 / 2], vec kFloat32 [1 / 2]] (1 / 4) (1 / 4) \<lparr>calls = 0, seeded = []\<rparr>)
     = Inr ()
   \<and> fst (CheckBackwardComputation identity_autograd exact_arith (counting_scale [2, 1])
      [vec kFloat32 [1], \<lparr>shape = [1, 1], dtype = kFloat32, data = [3], requires_grad = True\<rparr>]
      [vec kFloat32 [1], vec kFloat32 [1]]
      [vec kFloat32 [1 / 2], \<lparr>shape = [1, 1], dtype = kFloat32, data = [1 / 2], requires_grad = True\<rparr>]
      (1 / 4) (1 / 4) \<lparr>calls = 0, seeded = []\<rparr>)
     = Inl (AssertionError ''too large errors'')
   \<and> AllClose identity_autograd (vec kFloat32 [1])
        \<lparr>shape = [1, 1], dtype = kFloat32, data = [1], requires_grad = False\<rparr> (1 / 4) (1 / 4)
     = Inl ''shape mismatch''"
proof -
  let ?xs = "[vec kFloat32 [1], vec kFloat32 [3]]"
  let ?gys = "[vec kFloat32 [1], vec kFloat32 [1]]"
  let ?eps = "[vec kFloat32 [1 / 2], vec kFloat32 [1 / 2]]"
  let ?s = "\<lparr>calls = 0, seeded = []\<rparr>"
  let ?a = "\<lambda>v. \<lparr>shape = [1], dtype = kFloat32, data = [v::real], requires_grad = False\<rparr>"
  have run2: "backward_check_run identity_autograd exact_arith (counting_scale [1, 2]) ?xs ?gys ?eps ?s
      [vec kFloat32 [1], vec kFloat32 [6]] \<lparr>calls = 1, seeded = []\<rparr>
      [?a 1, ?a 6] \<lparr>calls = 1, seeded = []\<rparr> \<lparr>calls = 1, seeded = ?gys\<rparr>
      ?gys [?a 1, ?a 2] \<lparr>calls = 5, seeded = ?gys\<rparr>"
    by (simp add: run_defs eval_defs less_Suc_eq)
  have run1: "backward_check_run identity_autograd exact_arith (counting_scale [1, 1]) ?xs ?gys ?eps ?s
      [vec kFloat32 [1], vec kFloat32 [3]] \<lparr>calls = 1, seeded = []\<rparr>
      [?a 1, ?a 3] \<lparr>calls = 1, seeded = []\<rparr> \<lparr>calls = 1, seeded = ?gys\<rparr>
      ?gys [?a 1, ?a 1] \<lparr>calls = 5, seeded = ?gys\<rparr>"
    by (simp add: run_defs eval_defs less_Suc_eq)
  have c0: "AllClose identity_autograd (?gys ! 0) ([?a 1, ?a 2] ! 0) (1 / 4) (1 / 4) = Inr True"
    and c1: "AllClose identity_autograd (?gys ! 1) ([?a 1, ?a 2] ! 1) (1 / 4) (1 / 4) = Inr False"
    and c1': "AllClose identity_autograd (?gys ! 1) ([?a 1, ?a 1] ! 1) (1 / 4) (1 / 4) = Inr True"
    by (simp_all add: identity_autograd_def vec_def)
  have fails: "\<exists>i<length ?xs. AllClose identity_autograd (?gys ! i) ([?a 1, ?a 2] ! i) (1 / 4) (1 / 4) = Inr False
      \<and> (\<forall>i'<i. AllClose identity_autograd (?gys ! i') ([?a 1, ?a 2] ! i') (1 / 4) (1 / 4) = Inr True)"
    using c0 c1 by (intro exI [of _ 1]) (simp add: less_Suc_eq)
  have passes: "\<forall>i<length ?xs. AllClose identity_autograd (?gys ! i) ([?a 1, ?a 1] ! i) (1 / 4) (1 / 4) = Inr True"
    using c0 c1' by (simp add: less_Suc_eq)
  from CheckBackwardComputation_too_large_errors [of identity_autograd exact_arith "counting_scale [1, 2]"
      ?xs ?gys ?eps ?s "[vec kFloat32 [1], vec kFloat32 [6]]" "\<lparr>calls = 1, seeded = []\<rparr>"
      "[?a 1, ?a 6]" "\<lparr>calls = 1, seeded = []\<rparr>" "\<lparr>calls = 1, seeded = ?gys\<rparr>"
      ?gys "[?a 1, ?a 2]" "\<lparr>calls = 5, seeded = ?gys\<rparr>" "1 / 4" "1 / 4"] run2 fails
  have a: "fst (CheckBackwardComputation identity_autograd exact_arith (counting_scale [1, 2])
      ?xs ?gys ?eps (1 / 4) (1 / 4) ?s) = Inl (AssertionError ''too large errors'')"
    by blast
  from CheckBackwardComputation_too_large_errors [of identity_autograd exact_arith "counting_scale [1, 1]"
      ?xs ?gys ?eps ?s "[vec kFloat32 [1], vec kFloat32 [3]]" "\<lparr>calls = 1, seeded = []\<rparr>"
      "[?a 1, ?a 3]" "\<lparr>calls = 1, seeded = []\<rparr>" "\<lparr>calls = 1, seeded = ?gys\<rparr>"
      ?gys "[?a 1, ?a 1]" "\<lparr>calls = 5, seeded = ?gys\<rparr>" "1 / 4" "1 / 4"] run1 passes
  have b: "fst (CheckBackwardComputation identity_autograd exact_arith (counting_scale [1, 1])
      ?xs ?gys ?eps (1 / 4) (1 / 4) ?s) = Inr ()"
    by blast
  let ?ys = "[vec kFloat32 [1], \<lparr>shape = [1, 1], dtype = kFloat32, data = [3], requires_grad = True\<rparr>]"
  let ?es = "[vec kFloat32 [1 / 2],
              \<lparr>shape = [1, 1], dtype = kFloat32, data = [1 / 2], requires_grad = True\<rparr>]"
  let ?ns = "[?a 2, \<lparr>shape = [1, 1], dtype = kFloat32, data = [1], requires_grad = False\<rparr>]"
  have run3: "backward_check_run identity_autograd exact_arith (counting_scale [2, 1]) ?ys ?gys ?es ?s
      [vec kFloat32 [2], vec kFloat32 [3]] \<lparr>calls = 1, seeded = []\<rparr>
      [?a 2, ?a 3] \<lparr>calls = 1, seeded = []\<rparr> \<lparr>calls = 1, seeded = ?gys\<rparr>
      ?gys ?ns \<lparr>calls = 5, seeded = ?gys\<rparr>"
    by (simp add: run_defs eval_defs less_Suc_eq)
  have fails3: "\<exists>i<length ?ys. AllClose identity_autograd (?gys ! i) (?ns ! i) (1 / 4) (1 / 4) = Inr False
      \<and> (\<forall>i'<i. AllClose identity_autograd (?gys ! i') (?ns ! i') (1 / 4) (1 / 4) = Inr True)"
    by (intro exI [of _ 0]) (simp add: identity_autograd_def vec_def)
  from CheckBackwardComputation_too_large_errors [of identity_autograd exact_arith "counting_scale [2, 1]"
      ?ys ?gys ?es ?s "[vec kFloat32 [2], vec kFloat32 [3]]" "\<lparr>calls = 1, seeded = []\<rparr>"
      "[?a 2, ?a 3]" "\<lparr>calls = 1, seeded = []\<rparr>" "\<lparr>calls = 1, seeded = ?gys\<rparr>"
      ?gys ?ns "\<lparr>calls = 5, seeded = ?gys\<rparr>" "1 / 4" "1 / 4"] run3 fails3
  have c: "fst (CheckBackwardComputation identity_autograd exact_arith (counting_scale [2, 1])
      ?ys ?gys ?es (1 / 4) (1 / 4) ?s) = Inl (AssertionError ''too large errors'')"
    by blast
  have d: "AllClose identity_autograd (vec kFloat32 [1])
        \<lparr>shape = [1, 1], dtype = kFloat32, data = [1], requires_grad = False\<rparr> (1 / 4) (1 / 4)
     = Inl ''shape mismatch''"
    by (simp add: identity_autograd_def vec_def)
  from a b c d show ?thesis by simp
qed

subsection \<open>The number of outputs\<close>

lemma Identity_loop_ok:
  assumes "length outs = length ys"
    and "\<forall>i<length ys. total_size (ys ! i) \<le> length (data (ys ! i))
            \<and> total_size (ys ! i) \<le> length (data (outs ! i))"
    and "\<forall>i\<in>set is. i < length ys"
  shows "\<exists>outs'. fst (for_st (Identity_step au ys) is outs s) = Inr outs' \<and> length outs' = length ys"
  using assms
proof (induction "is" arbitrary: outs s)
  case Nil
  then show ?case by simp
next
  case (Cons i "is")
  let ?d = "take (total_size (ys ! i)) (data (ys ! i)) @ drop (total_size (ys ! i)) (data (outs ! i))"
  let ?outs = "outs[i := (outs ! i)\<lparr>data := ?d\<rparr>]"
  let ?s = "if requires_grad (ys ! i) then connect_identity au i (ys ! i) (outs ! i) s else s"
  have i: "i < length ys" using Cons.prems(3) by simp
  have step: "Identity_step au ys i outs s = (Inr ?outs, ?s)"
    using i Cons.prems(1,2)
    by (simp add: Identity_step_def vector_index_def MemoryCopy_def bind_st_def pure_st_def)
  have "\<forall>j<length ys. total_size (ys ! j) \<le> length (data (ys ! j))
            \<and> total_size (ys ! j) \<le> length (data (?outs ! j))"
    using Cons.prems(1,2) i by (auto simp: nth_list_update)
  with Cons.prems have "\<exists>outs'. fst (for_st (Identity_step au ys) is ?outs ?s) = Inr outs'
      \<and> length outs' = length ys"
    by (intro Cons.IH) simp_all
  then show ?case
    by (simp add: step)
qed

lemma Identity_ok:
  assumes "\<forall>y\<in>set ys. length (data y) = total_size y"
  shows "\<exists>outs. fst (Identity au ops ys s) = Inr outs \<and> length outs = length ys"
  unfolding Identity_def Identity_into_def Let_def
  using assms by (intro Identity_loop_ok) (simp_all add: EmptyLike_def)

text \<open>
  Claim C5, as the code has it. \<^verbatim>\<open>CheckBackwardComputation\<close> first evaluates \<^verbatim>\<open>func\<close>
  on the inputs, once, and passes the outputs through \<^verbatim>\<open>Identity\<close>. When the number of
  outputs is not the number of output gradients it then throws
  \<^verbatim>\<open>std::invalid_argument\<close>, in the state that the call of \<^verbatim>\<open>func\<close> and \<^verbatim>\<open>Identity\<close> left:
  no output gradient was set, backprop was not run and no numerical gradient was
  estimated.
\<close>

theorem output_count_mismatch:
  assumes "func inputs s = (Inr ys, s1)"
    and "\<forall>y\<in>set ys. length (data y) = total_size y"
    and "length ys \<noteq> length grad_outputs"
  shows "CheckBackwardComputation au ops func inputs grad_outputs eps atol rtol s =
           (Inl (InvalidArgument
              ''Number of given output gradients does not match the actual number of outputs''),
            snd (Identity au ops ys s1))"
proof -
  from Identity_ok [OF assms(2), of au ops s1]
  obtain outs where outs: "fst (Identity au ops ys s1) = Inr outs" and len: "length outs = length ys"
    by blast
  then have ident: "Identity au ops ys s1 = (Inr outs, snd (Identity au ops ys s1))"
    by (cases "Identity au ops ys s1") simp
  have c: "call func inputs s = (Inr ys, s1)"
    by (simp add: call_def assms(1) external_def)
  have "gradients au ops func inputs grad_outputs eps s =
      (Inl (InvalidArgument
              ''Number of given output gradients does not match the actual number of outputs''),
       snd (Identity au ops ys s1))"
    unfolding gradients_def
    apply (subst bind_st_Inr [where m = "call func inputs", OF c])
    apply (subst bind_st_Inr [where m = "Identity au ops ys", OF ident])
    using len assms(3) apply (simp add: pure_st_def)
    done
  then show ?thesis
    by (simp add: CheckBackwardComputation_def bind_st_def)
qed

text \<open>The theorem on the identity function with one input and no output gradient.\<close>

theorem output_count_mismatch_witness:
  "fst (CheckBackwardComputation identity_autograd exact_arith counting_identity
      [vec kFloat32 [1]] [] [vec kFloat32 [1 / 2]] 0 0 \<lparr>calls = 0, seeded = []\<rparr>)
     = Inl (InvalidArgument
              ''Number of given output gradients does not match the actual number of outputs'')"
proof -
  have h: "counting_identity [vec kFloat32 [1]] \<lparr>calls = 0, seeded = []\<rparr>
        = (Inr [vec kFloat32 [1]], \<lparr>calls = 1, seeded = []\<rparr>)"
    "\<forall>y\<in>set [vec kFloat32 [1]]. length (data y) = total_size y"
    "length [vec kFloat32 [1]] \<noteq> length ([]::real Array list)"
    by (simp_all add: counting_identity_def vec_def total_size_def)
  from output_count_mismatch [where func = counting_identity and inputs = "[vec kFloat32 [1]]"
      and s = "\<lparr>calls = 0, seeded = []\<rparr>" and au = identity_autograd and ops = exact_arith
      and eps = "[vec kFloat32 [1 / 2]]" and atol = 0 and rtol = 0, OF h]
  show ?thesis by simp
qed

text \<open>
  Claim C5 as it is stated says that the mismatch is detected before any evaluation.
  With one input, no output gradient and the identity function that counts its calls,
  the error is thrown after one call.
\<close>

theorem output_count_mismatch_counterexample:
  "CheckBackwardComputation identity_autograd exact_arith counting_identity
      [vec kFloat32 [1]] [] [vec kFloat32 [1 / 2]] 0 0 \<lparr>calls = 0, seeded = []\<rparr>
     = (Inl (InvalidArgument
              ''Number of given output gradients does not match the actual number of outputs''),
        \<lparr>calls = 1, seeded = []\<rparr>)
   \<and> calls (snd (CheckBackwardComputation identity_autograd exact_arith counting_identity
      [vec kFloat32 [1]] [] [vec kFloat32 [1 / 2]] 0 0 \<lparr>calls = 0, seeded = []\<rparr>)) \<noteq> 0"
  by (simp add: CheckBackwardComputation_def gradients_def Identity_def Identity_into_def Identity_step_def
      MemoryCopy_def vector_index_def call_def counting_identity_def identity_autograd_def
      bind_st_def pure_st_def eval_defs)

end
